theory Spec2Isabelle
  imports Complex_Main "HOL-Library.AList"
begin

section \<open>Python values used by the query compiler\<close>

text \<open>
  Strings are ASCII character lists.  Every \<^verbatim>\<open>raise\<close> of the source and every
  exception of a library call that the source does not catch is a value of \<open>error\<close>;
  a function that can raise returns \<open>error + 'a\<close> with \<open>Inl\<close> for the exception.
\<close>

datatype error =
    QueryParseException string
  | IndexError
  | KeyError string
  | ZeroDivisionError
  | ReError
  | NotModelled

text \<open>\<^verbatim>\<open>a or b\<close> on results that may raise: \<open>b\<close> is only looked at when \<open>a\<close> is falsy.\<close>

definition or_else :: "error + bool \<Rightarrow> error + bool \<Rightarrow> error + bool" where
  "or_else a b = (case a of Inl e \<Rightarrow> Inl e | Inr True \<Rightarrow> Inr True | Inr False \<Rightarrow> b)"

subsection \<open>\<^verbatim>\<open>str.strip\<close>, \<^verbatim>\<open>str.lower\<close>, \<^verbatim>\<open>re.split\<close>, \<^verbatim>\<open>str.join\<close>\<close>

definition is_space :: "char \<Rightarrow> bool" where
  "is_space c = (let n = (of_char c :: nat) in (9 \<le> n \<and> n \<le> 13) \<or> (28 \<le> n \<and> n \<le> 32))"

definition strip :: "string \<Rightarrow> string" where
  "strip s = rev (dropWhile is_space (rev (dropWhile is_space s)))"

definition lower_char :: "char \<Rightarrow> char" where
  "lower_char c = (let n = (of_char c :: nat) in if 65 \<le> n \<and> n \<le> 90 then char_of (n + 32) else c)"

definition lower :: "string \<Rightarrow> string" where
  "lower s = map lower_char s"

text \<open>
  \<^verbatim>\<open>re.split\<close> on a one-character class: \<open>n\<close> separators give \<open>n + 1\<close> pieces, empty
  pieces included.
\<close>

fun re_split :: "(char \<Rightarrow> bool) \<Rightarrow> string \<Rightarrow> string list" where
  "re_split sep [] = [[]]"
| "re_split sep (c # cs) =
     (if sep c then [] # re_split sep cs
      else (case re_split sep cs of [] \<Rightarrow> [[c]] | w # ws \<Rightarrow> (c # w) # ws))"

text \<open>\<^verbatim>\<open>list(filter(None, parts))\<close> drops the empty strings.\<close>

definition filter_None :: "string list \<Rightarrow> string list" where
  "filter_None parts = filter (\<lambda>p. p \<noteq> []) parts"

text \<open>The class \<^verbatim>\<open>[\s\-\_:]\<close> of the expression and the class \<^verbatim>\<open>[\s:\-]\<close> of the names.\<close>

definition expr_sep :: "char \<Rightarrow> bool" where
  "expr_sep c = (is_space c \<or> c = CHR ''-'' \<or> c = CHR ''_'' \<or> c = CHR '':'')"

definition name_sep :: "char \<Rightarrow> bool" where
  "name_sep c = (is_space c \<or> c = CHR '':'' \<or> c = CHR ''-'')"

definition var_sep :: "char \<Rightarrow> bool" where
  "var_sep c = (c = CHR '':'' \<or> c = CHR ''-'')"

fun join :: "string \<Rightarrow> string list \<Rightarrow> string" where
  "join sep [] = []"
| "join sep [x] = x"
| "join sep (x # y # ys) = x @ sep @ join sep (y # ys)"

text \<open>\<^verbatim>\<open>s.split(':', 1)[1]\<close>: what follows the first colon; IndexError without a colon.\<close>

definition split_colon_1 :: "string \<Rightarrow> error + string" where
  "split_colon_1 s =
     (case dropWhile (\<lambda>c. c \<noteq> CHR '':'') s of [] \<Rightarrow> Inl IndexError | _ # rest \<Rightarrow> Inr rest)"

definition startswith :: "string \<Rightarrow> string \<Rightarrow> bool" where
  "startswith s p = (take (length p) s = p)"

subsection \<open>The libraries \<^verbatim>\<open>inflect\<close> and \<^verbatim>\<open>re\<close>\<close>

text \<open>
  \<^verbatim>\<open>inflect.engine().plural\<close> and \<^verbatim>\<open>re.fullmatch\<close> are not code of the repository; the
  compiler takes them as parameters.  \<open>re_fullmatch lib pattern s\<close> is the truth value of the
  match object, or \<open>Inl ReError\<close> where the pattern does not compile.
\<close>

record library =
  inflect_plural :: "string \<Rightarrow> string"
  re_fullmatch :: "string \<Rightarrow> string \<Rightarrow> error + bool"

text \<open>
  For concrete inputs the development uses a fragment of both libraries.

  The grammar builds an entity expression from words over the letters and the characters
  \<^verbatim>\<open>:\<close>, \<^verbatim>\<open>.\<close>, \<^verbatim>\<open>*\<close>, \<^verbatim>\<open>-\<close>, joined by blanks.  In such a pattern \<^verbatim>\<open>.\<close> matches any character but
  the newline, \<^verbatim>\<open>*\<close> repeats the atom before it (and does not compile at the start of the
  pattern or after another \<^verbatim>\<open>*\<close>), and every other character matches itself.  The other
  metacharacters of \<^verbatim>\<open>re\<close> are outside the fragment; for them the model answers
  \<open>NotModelled\<close>, which is no behaviour of Python, and no statement below uses one.
\<close>

datatype atom = AnyChar | Lit char

definition outside_fragment :: "char \<Rightarrow> bool" where
  "outside_fragment c = (c \<in> set ''^$+?{}[]|()'' \<or> c = CHR 0x5C)"

fun rx_atoms :: "string \<Rightarrow> error + (atom \<times> bool) list" where
  "rx_atoms [] = Inr []"
| "rx_atoms (c # cs) =
     (if c = CHR ''*'' then Inl ReError
      else if outside_fragment c then Inl NotModelled
      else (let a = (if c = CHR ''.'' then AnyChar else Lit c)
            in case cs of
                 [] \<Rightarrow> Inr [(a, False)]
               | c' # cs' \<Rightarrow>
                   if c' = CHR ''*''
                   then (case rx_atoms cs' of Inl err \<Rightarrow> Inl err | Inr ps \<Rightarrow> Inr ((a, True) # ps))
                   else (case rx_atoms (c' # cs') of
                           Inl err \<Rightarrow> Inl err
                         | Inr ps \<Rightarrow> Inr ((a, False) # ps))))"

definition atom_ok :: "atom \<Rightarrow> char \<Rightarrow> bool" where
  "atom_ok a c = (case a of AnyChar \<Rightarrow> c \<noteq> CHR 0x0A | Lit l \<Rightarrow> c = l)"

fun rx_match :: "(atom \<times> bool) list \<Rightarrow> string \<Rightarrow> bool" where
  "rx_match [] s = (s = [])"
| "rx_match ((a, False) # ps) [] = False"
| "rx_match ((a, False) # ps) (c # s) = (atom_ok a c \<and> rx_match ps s)"
| "rx_match ((a, True) # ps) [] = rx_match ps []"
| "rx_match ((a, True) # ps) (c # s) =
     (rx_match ps (c # s) \<or> (atom_ok a c \<and> rx_match ((a, True) # ps) s))"

definition fragment_fullmatch :: "string \<Rightarrow> string \<Rightarrow> error + bool" where
  "fragment_fullmatch pattern s =
     (case rx_atoms pattern of Inl err \<Rightarrow> Inl err | Inr ps \<Rightarrow> Inr (rx_match ps s))"

text \<open>
  \<open>plural_s\<close> appends a plain \<^verbatim>\<open>s\<close>.  It is the plural of \<^verbatim>\<open>inflect\<close> only for a name whose
  last word forms its plural that way (ore, ingot, rod, fuel, plate, constructor, smelter,
  blender), not for a name such as refinery, whose plural is refineries.  Every name of the
  concrete catalogs below ends in one of the words listed.
\<close>

definition plural_s :: "string \<Rightarrow> string" where
  "plural_s s = s @ ''s''"

definition fragment_library :: library where
  "fragment_library = \<lparr>inflect_plural = plural_s, re_fullmatch = fragment_fullmatch\<rparr>"

section \<open>The catalog\<close>

text \<open>
  The classes of the Game Database are not under the sources.  Its objects are duck-typed:
  an entity is the record of what the compiler and the graph builder ask of an item, a
  recipe, a power recipe, a crafter or a generator.  \<open>ingredients\<close> and \<open>products\<close> are the
  dictionaries of a recipe, from item var to the per-minute rate of the entry.
\<close>

record entity =
  var :: string
  human_readable_name :: string
  slug :: string
  is_resource :: bool
  is_alternate :: bool
  viz_name :: string
  ingredients :: "(string \<times> rat) list"
  products :: "(string \<times> rat) list"
  crafter_var :: string
  generator_var :: string
  fuel_item_var :: string
  fuel_minute_rate :: rat
  power_production :: rat

text \<open>
  \<open>items\<close> is the dictionary \<^verbatim>\<open>db.items()\<close> (keys in insertion order); the other
  dictionaries are only read through \<^verbatim>\<open>.values()\<close>.  \<open>recipes_for_product\<close> and
  \<open>recipes_for_ingredient\<close> are the database's own methods, taken as they are.
\<close>

record db =
  items :: "(string \<times> entity) list"
  recipes :: "entity list"
  power_recipes :: "entity list"
  crafters :: "entity list"
  generators :: "entity list"
  recipes_for_product :: "string \<Rightarrow> entity list"
  recipes_for_ingredient :: "string \<Rightarrow> entity list"

definition dict_values :: "('k \<times> 'v) list \<Rightarrow> 'v list" where
  "dict_values d = map snd d"

section \<open>Entity resolution (\<^verbatim>\<open>QueryParser._check_var\<close>, \<^verbatim>\<open>QueryParser._get_matches\<close>)\<close>

definition expr_norm :: "string \<Rightarrow> string" where
  "expr_norm expr = lower (strip expr)"

definition expr_parts :: "string \<Rightarrow> string list" where
  "expr_parts expr = filter_None (re_split expr_sep (expr_norm expr))"

text \<open>The last \<^verbatim>\<open>return\<close> of \<^verbatim>\<open>_check_var\<close>: four regular-expression matches joined by \<^verbatim>\<open>or\<close>.\<close>

definition regex_rules :: "library \<Rightarrow> string \<Rightarrow> entity \<Rightarrow> string \<Rightarrow> error + bool" where
  "regex_rules lib expr v typeless_var =
     (let e = expr_norm expr;
          singular = lower (human_readable_name v);
          plural = inflect_plural lib singular
      in or_else (re_fullmatch lib e singular)
        (or_else (re_fullmatch lib e plural)
        (or_else (re_fullmatch lib e (var v))
                 (re_fullmatch lib e typeless_var))))"

definition check_var :: "library \<Rightarrow> string \<Rightarrow> entity \<Rightarrow> error + bool" where
  "check_var lib expr v =
     (let parts = expr_parts expr;
          singular = lower (human_readable_name v);
          singular_parts = filter_None (re_split name_sep singular);
          plural = inflect_plural lib singular;
          plural_parts = filter_None (re_split name_sep plural)
      in if parts = singular_parts then Inr True
         else if parts = plural_parts then Inr True
         else if startswith singular ''recipe: alternate: '' \<and>
                 (parts = drop 2 singular_parts
                  \<or> parts = take 1 singular_parts @ drop 2 singular_parts
                  \<or> parts = drop 2 plural_parts
                  \<or> parts = take 1 plural_parts @ drop 2 plural_parts) then Inr True
         else if parts = filter_None (re_split var_sep (var v)) then Inr True
         else (case split_colon_1 (var v) of
                 Inl err \<Rightarrow> Inl err
               | Inr typeless_var \<Rightarrow>
                   if parts = re_split var_sep typeless_var then Inr True
                   else regex_rules lib expr v typeless_var))"

text \<open>
  \<^verbatim>\<open>allowed_vars\<close> is a Python set of objects; the model lists it in the order in which the
  source adds the categories.  The order in which Python walks a set is not fixed, so only
  the set of the matches, and whether an exception leaves the loop, are meaningful.
\<close>

definition allowed_vars :: "db \<Rightarrow> string list \<Rightarrow> entity list" where
  "allowed_vars d allowed_types =
     (if ''resource'' \<in> set allowed_types then filter is_resource (dict_values (items d)) else [])
   @ (if ''item'' \<in> set allowed_types then filter (\<lambda>i. \<not> is_resource i) (dict_values (items d)) else [])
   @ (if ''recipe'' \<in> set allowed_types then recipes d else [])
   @ (if ''power-recipe'' \<in> set allowed_types then power_recipes d else [])
   @ (if ''crafter'' \<in> set allowed_types then crafters d else [])
   @ (if ''generator'' \<in> set allowed_types then generators d else [])"

fun filter_check :: "library \<Rightarrow> string \<Rightarrow> entity list \<Rightarrow> error + entity list" where
  "filter_check lib expr [] = Inr []"
| "filter_check lib expr (v # vs) =
     (case check_var lib expr v of
        Inl err \<Rightarrow> Inl err
      | Inr b \<Rightarrow> (case filter_check lib expr vs of
                   Inl err \<Rightarrow> Inl err
                 | Inr ms \<Rightarrow> Inr (if b then v # ms else ms)))"

definition get_matches :: "library \<Rightarrow> db \<Rightarrow> string \<Rightarrow> string list \<Rightarrow> error + entity list" where
  "get_matches lib d expr allowed_types = filter_check lib expr (allowed_vars d allowed_types)"

section \<open>Parse results and query objects\<close>

text \<open>
  The grammar gives every output and input clause a \<^verbatim>\<open>strict\<close> flag (a leading \<^verbatim>\<open>only\<close>),
  a \<^verbatim>\<open>value\<close> (\<^verbatim>\<open>?\<close>, an unsigned integer, or \<^verbatim>\<open>_\<close> for \<^verbatim>\<open>any\<close>, \<^verbatim>\<open>_\<close> and nothing) and
  exactly one of \<^verbatim>\<open>literal\<close> and \<^verbatim>\<open>entity\<close>.  The name \<^verbatim>\<open>power\<close> is set on an output
  clause whose literal is the keyword \<^verbatim>\<open>power\<close>.  An exclude clause is a literal, the
  keyword \<^verbatim>\<open>byproducts\<close> or an entity expression.
\<close>

datatype clause_value = Objective | AnyValue | Num nat

datatype target = Literal string | Entity string

datatype exclude_target = ExcludeLiteral string | ExcludeByproducts | ExcludeEntity string

record clause =
  strict :: bool
  c_value :: clause_value
  c_target :: target

record optimization_query =
  raw_query :: string
  maximize_objective :: bool
  objective_coefficients :: "(string \<times> int) list"
  eq_constraints :: "(string \<times> int) list"
  ge_constraints :: "(string \<times> int) list"
  le_constraints :: "(string \<times> int) list"
  strict_inputs :: bool
  strict_outputs :: bool
  strict_recipes :: bool
  strict_power_recipes :: bool
  strict_crafters :: bool
  strict_generators :: bool
  has_power_output :: bool

text \<open>
  Modelled from the spec: the constructor \<^verbatim>\<open>OptimizationQuery(raw_query)\<close> of
  \<^verbatim>\<open>ada/query.py\<close> is not under the sources.  Section 3 of the spec gives the three
  constraint maps and the objective coefficients as maps and the flags as false by default;
  the direction of the objective before any clause is read is not stated and is the
  parameter \<open>mx\<close>.
\<close>

definition OptimizationQuery :: "string \<Rightarrow> bool \<Rightarrow> optimization_query" where
  "OptimizationQuery raw mx =
     \<lparr>raw_query = raw, maximize_objective = mx, objective_coefficients = [],
      eq_constraints = [], ge_constraints = [], le_constraints = [],
      strict_inputs = False, strict_outputs = False, strict_recipes = False,
      strict_power_recipes = False, strict_crafters = False, strict_generators = False,
      has_power_output = False\<rparr>"

text \<open>
  Modelled from the spec: \<^verbatim>\<open>InfoQuery\<close> and \<^verbatim>\<open>RecipeCompareQuery\<close> of \<^verbatim>\<open>ada/query.py\<close> are
  not under the sources; the handlers use \<^verbatim>\<open>vars\<close> as a list and assign the four
  attributes of a comparison.
\<close>

record info_query =
  info_raw_query :: string
  vars :: "entity list"

record recipe_compare_query =
  compare_raw_query :: string
  product_item :: entity
  base_recipe :: entity
  related_recipes :: "entity list"
  exclude_alternates :: bool

subsection \<open>Dictionaries and loops\<close>

text \<open>\<^verbatim>\<open>{var: x for var in vars}\<close> and \<^verbatim>\<open>d.update(new)\<close> on insertion-ordered dictionaries.\<close>

definition dict_comp :: "string list \<Rightarrow> int \<Rightarrow> (string \<times> int) list" where
  "dict_comp vs x = fold (\<lambda>v acc. AList.update v x acc) vs []"

definition dict_update :: "(string \<times> int) list \<Rightarrow> (string \<times> int) list \<Rightarrow> (string \<times> int) list" where
  "dict_update d new = fold (\<lambda>(k, x) acc. AList.update k x acc) new d"

text \<open>A \<^verbatim>\<open>for\<close> loop over a list whose body updates the state or raises.\<close>

fun for_each :: "('a \<Rightarrow> 's \<Rightarrow> error + 's) \<Rightarrow> 'a list \<Rightarrow> 's \<Rightarrow> error + 's" where
  "for_each body [] s = Inr s"
| "for_each body (x # xs) s =
     (case body x s of Inl err \<Rightarrow> Inl err | Inr s' \<Rightarrow> for_each body xs s')"

definition quoted :: "string \<Rightarrow> string" where
  "quoted e = [CHR 0x27] @ e @ [CHR 0x27] @ ''.''"

definition could_not_parse :: "string \<Rightarrow> string \<Rightarrow> error" where
  "could_not_parse what e =
     QueryParseException (''Could not parse '' @ what @ '' expression '' @ quoted e)"

text \<open>
  The variables of a clause: the literal, or the vars of the matches of the entity
  expression in the given categories; no match raises with the given message.
\<close>

definition target_vars ::
  "library \<Rightarrow> db \<Rightarrow> string list \<Rightarrow> string \<Rightarrow> target \<Rightarrow> error + string list" where
  "target_vars lib d allowed_types what t =
     (case t of
        Literal l \<Rightarrow> Inr [l]
      | Entity e \<Rightarrow>
          (case get_matches lib d e allowed_types of
             Inl err \<Rightarrow> Inl err
           | Inr ms \<Rightarrow>
               if length (map var ms) = 0
               then Inl (could_not_parse what e)
               else Inr (map var ms)))"

section \<open>The optimization query (\<^verbatim>\<open>QueryParser._parse_optimization_query\<close>)\<close>

text \<open>
  One function for the body of each loop, one for each handler.  A handler takes the query
  built so far and returns the updated query or the exception; an absent clause list is the
  empty list.  The \<^verbatim>\<open>print\<close> of the output handler is left out.
\<close>

definition parse_output :: "library \<Rightarrow> db \<Rightarrow> clause \<Rightarrow> optimization_query \<Rightarrow> error + optimization_query" where
  "parse_output lib d output q =
     (case target_vars lib d [''item''] ''item'' (c_target output) of
        Inl err \<Rightarrow> Inl err
      | Inr output_vars \<Rightarrow>
          (case (case c_value output of
                   Objective \<Rightarrow>
                     if length (objective_coefficients q) > 0
                     then Inl (QueryParseException ''Only one objective may be specified.'')
                     else Inr (q\<lparr>maximize_objective := True,
                                 objective_coefficients := dict_comp output_vars 1\<rparr>)
                 | AnyValue \<Rightarrow>
                     Inr (q\<lparr>ge_constraints := dict_update (ge_constraints q) (dict_comp output_vars 0)\<rparr>)
                 | Num n \<Rightarrow>
                     Inr (q\<lparr>eq_constraints :=
                              dict_update (eq_constraints q) (dict_comp output_vars (int n))\<rparr>)) of
             Inl err \<Rightarrow> Inl err
           | Inr q1 \<Rightarrow>
               (let q2 = (if strict output then q1\<lparr>strict_outputs := True\<rparr> else q1)
                in Inr (if c_target output = Literal ''power''
                        then q2\<lparr>has_power_output := True\<rparr> else q2))))"

definition parse_outputs :: "library \<Rightarrow> db \<Rightarrow> clause list \<Rightarrow> optimization_query \<Rightarrow> error + optimization_query" where
  "parse_outputs lib d outputs q =
     (if outputs = [] then Inl (QueryParseException ''No outputs specified in optimization query.'')
      else for_each (parse_output lib d) outputs q)"

definition parse_input :: "library \<Rightarrow> db \<Rightarrow> clause \<Rightarrow> optimization_query \<Rightarrow> error + optimization_query" where
  "parse_input lib d input q =
     (case target_vars lib d [''resource'', ''item''] ''resource or item'' (c_target input) of
        Inl err \<Rightarrow> Inl err
      | Inr input_vars \<Rightarrow>
          (case (case c_value input of
                   Objective \<Rightarrow>
                     if length (objective_coefficients q) > 0
                     then Inl (QueryParseException ''Only one objective may be specified.'')
                     else Inr (q\<lparr>maximize_objective := False,
                                 objective_coefficients := dict_comp input_vars (- 1)\<rparr>)
                 | AnyValue \<Rightarrow>
                     Inr (q\<lparr>le_constraints := dict_update (le_constraints q) (dict_comp input_vars 0)\<rparr>)
                 | Num n \<Rightarrow>
                     Inr (q\<lparr>ge_constraints :=
                              dict_update (ge_constraints q) (dict_comp input_vars (- int n))\<rparr>)) of
             Inl err \<Rightarrow> Inl err
           | Inr q1 \<Rightarrow> Inr (if strict input then q1\<lparr>strict_inputs := True\<rparr> else q1)))"

definition parse_inputs :: "library \<Rightarrow> db \<Rightarrow> clause list \<Rightarrow> optimization_query \<Rightarrow> error + optimization_query" where
  "parse_inputs lib d inputs q =
     (if inputs = []
      then Inr (q\<lparr>maximize_objective := False,
                  objective_coefficients := [(''unweighted-resources'', - 1)]\<rparr>)
      else for_each (parse_input lib d) inputs q)"

definition include_flags :: "string \<Rightarrow> optimization_query \<Rightarrow> optimization_query" where
  "include_flags v q =
     (let q1 = (if startswith v ''recipe:'' then q\<lparr>strict_recipes := True\<rparr> else q);
          q2 = (if startswith v ''power-recipe:'' then q1\<lparr>strict_power_recipes := True\<rparr> else q1);
          q3 = (if startswith v ''crafter:'' then q2\<lparr>strict_crafters := True\<rparr> else q2)
      in if startswith v ''generator:'' then q3\<lparr>strict_generators := True\<rparr> else q3)"

definition building_types :: "string list" where
  "building_types = [''recipe'', ''power-recipe'', ''crafter'', ''generator'']"

definition building_what :: string where
  "building_what = ''recipe, power recipe, crafter, or generator''"

definition parse_include :: "library \<Rightarrow> db \<Rightarrow> target \<Rightarrow> optimization_query \<Rightarrow> error + optimization_query" where
  "parse_include lib d include q =
     (case target_vars lib d building_types building_what include of
        Inl err \<Rightarrow> Inl err
      | Inr include_vars \<Rightarrow>
          Inr (fold include_flags include_vars
                 (q\<lparr>ge_constraints := dict_update (ge_constraints q) (dict_comp include_vars 0)\<rparr>)))"

definition parse_includes :: "library \<Rightarrow> db \<Rightarrow> target list \<Rightarrow> optimization_query \<Rightarrow> error + optimization_query" where
  "parse_includes lib d includes q = for_each (parse_include lib d) includes q"

definition exclude_vars :: "library \<Rightarrow> db \<Rightarrow> exclude_target \<Rightarrow> error + string list" where
  "exclude_vars lib d exclude =
     (case exclude of
        ExcludeLiteral l \<Rightarrow> target_vars lib d building_types building_what (Literal l)
      | ExcludeEntity e \<Rightarrow> target_vars lib d building_types building_what (Entity e)
      | ExcludeByproducts \<Rightarrow> Inr [])"

definition parse_exclude :: "library \<Rightarrow> db \<Rightarrow> exclude_target \<Rightarrow> optimization_query \<Rightarrow> error + optimization_query" where
  "parse_exclude lib d exclude q =
     (case exclude_vars lib d exclude of
        Inl err \<Rightarrow> Inl err
      | Inr vs \<Rightarrow>
          (let q1 = (if exclude = ExcludeByproducts then q\<lparr>strict_outputs := True\<rparr> else q)
           in Inr (q1\<lparr>eq_constraints := dict_update (eq_constraints q1) (dict_comp vs 0)\<rparr>)))"

definition parse_excludes :: "library \<Rightarrow> db \<Rightarrow> exclude_target list \<Rightarrow> optimization_query \<Rightarrow> error + optimization_query" where
  "parse_excludes lib d excludes q = for_each (parse_exclude lib d) excludes q"

definition parse_optimization_query ::
  "library \<Rightarrow> db \<Rightarrow> string \<Rightarrow> bool \<Rightarrow> clause list \<Rightarrow> clause list \<Rightarrow> target list \<Rightarrow> exclude_target list
     \<Rightarrow> error + optimization_query" where
  "parse_optimization_query lib d raw mx outputs inputs includes excludes =
     (case parse_outputs lib d outputs (OptimizationQuery raw mx) of
        Inl err \<Rightarrow> Inl err
      | Inr q1 \<Rightarrow>
          (case parse_inputs lib d inputs q1 of
             Inl err \<Rightarrow> Inl err
           | Inr q2 \<Rightarrow>
               (case parse_includes lib d includes q2 of
                  Inl err \<Rightarrow> Inl err
                | Inr q3 \<Rightarrow> parse_excludes lib d excludes q3)))"

section \<open>Recipe queries, comparison and entity details\<close>

definition parse_recipe_for_query :: "library \<Rightarrow> db \<Rightarrow> string \<Rightarrow> string \<Rightarrow> error + info_query" where
  "parse_recipe_for_query lib d raw e =
     (case get_matches lib d e [''item''] of
        Inl err \<Rightarrow> Inl err
      | Inr matches \<Rightarrow>
          if length matches = 0 then Inl (could_not_parse ''item'' e)
          else
            (let all_vars = concat (map (\<lambda>m. recipes_for_product d (var m)) matches);
                 non_alternate_vars = filter (\<lambda>r. \<not> is_alternate r) all_vars
             in Inr \<lparr>info_raw_query = raw,
                     vars = (if length non_alternate_vars > 0 then non_alternate_vars
                             else all_vars)\<rparr>))"

definition recipes_for_match :: "db \<Rightarrow> entity \<Rightarrow> entity list" where
  "recipes_for_match d m =
     (if startswith (var m) ''item'' \<or> startswith (var m) ''resource''
      then recipes_for_product d (var m)
      else if startswith (var m) ''crafter''
      then filter (\<lambda>r. crafter_var r = var m) (recipes d)
      else if startswith (var m) ''generator''
      then filter (\<lambda>r. generator_var r = var m) (power_recipes d)
      else [])"

definition parse_recipes_for_query :: "library \<Rightarrow> db \<Rightarrow> string \<Rightarrow> string \<Rightarrow> error + info_query" where
  "parse_recipes_for_query lib d raw e =
     (case get_matches lib d e [''resource'', ''item'', ''crafter'', ''generator''] of
        Inl err \<Rightarrow> Inl err
      | Inr matches \<Rightarrow>
          if length matches = 0
          then Inl (could_not_parse ''resource, item, crafter, or generator'' e)
          else Inr \<lparr>info_raw_query = raw, vars = concat (map (recipes_for_match d) matches)\<rparr>)"

definition parse_recipes_from_query :: "library \<Rightarrow> db \<Rightarrow> string \<Rightarrow> string \<Rightarrow> error + info_query" where
  "parse_recipes_from_query lib d raw e =
     (case get_matches lib d e [''resource'', ''item''] of
        Inl err \<Rightarrow> Inl err
      | Inr matches \<Rightarrow>
          if length matches = 0 then Inl (could_not_parse ''resoure or item'' e)
          else Inr \<lparr>info_raw_query = raw,
                    vars = concat (map (\<lambda>m. recipes_for_ingredient d (var m)) matches)\<rparr>)"

definition parse_single_recipe_query :: "library \<Rightarrow> db \<Rightarrow> string \<Rightarrow> string \<Rightarrow> error + info_query" where
  "parse_single_recipe_query lib d raw e =
     (case get_matches lib d e [''recipe''] of
        Inl err \<Rightarrow> Inl err
      | Inr matches \<Rightarrow>
          if length matches = 0 then Inl (could_not_parse ''recipe'' e)
          else Inr \<lparr>info_raw_query = raw, vars = matches\<rparr>)"

text \<open>
  The loop of the comparison: the first recipe whose slug is the slug of the product
  becomes the base recipe and leaves the list; \<open>None\<close> is \<^verbatim>\<open>base_recipe is None\<close>.
\<close>

fun find_base :: "string \<Rightarrow> entity list \<Rightarrow> entity option" where
  "find_base product_slug [] = None"
| "find_base product_slug (r # rs) =
     (if slug r = product_slug then Some r else find_base product_slug rs)"

definition parse_recipe_compare_query ::
  "library \<Rightarrow> db \<Rightarrow> string \<Rightarrow> string \<Rightarrow> bool \<Rightarrow> error + recipe_compare_query" where
  "parse_recipe_compare_query lib d raw e excl =
     (case get_matches lib d e [''item''] of
        Inl err \<Rightarrow> Inl err
      | Inr matches \<Rightarrow>
          (case matches of
             [] \<Rightarrow> Inl (could_not_parse ''compare recipes for'' e)
           | product # others \<Rightarrow>
               if length matches > 1
               then Inl (QueryParseException
                          (''Multiple items were matched:'' @ [CHR 0x0A] @ ''   ''
                           @ join ([CHR 0x0A] @ ''   '') (map human_readable_name matches)
                           @ [CHR 0x0A] @ ''Please repeat the command with a more specific item name.''))
               else
                 (let related = recipes_for_product d (var product)
                  in if length related = 0
                     then Inl (QueryParseException
                                (''Could not find any recipe that produces ''
                                 @ human_readable_name product))
                     else if length related = 1
                     then Inr \<lparr>compare_raw_query = raw, product_item = product,
                               base_recipe = hd related, related_recipes = [],
                               exclude_alternates = excl\<rparr>
                     else (case find_base (slug product) related of
                             None \<Rightarrow>
                               Inl (QueryParseException
                                     (''Could not find base recipe for ''
                                      @ human_readable_name product))
                           | Some base \<Rightarrow>
                               Inr \<lparr>compare_raw_query = raw, product_item = product,
                                    base_recipe = base, related_recipes = remove1 base related,
                                    exclude_alternates = excl\<rparr>))))"

definition parse_entity_details :: "library \<Rightarrow> db \<Rightarrow> string \<Rightarrow> string \<Rightarrow> error + info_query" where
  "parse_entity_details lib d raw e =
     (case get_matches lib d e [''resource'', ''item'', ''crafter'', ''generator''] of
        Inl err \<Rightarrow> Inl err
      | Inr non_recipe_matches \<Rightarrow>
          if length non_recipe_matches > 0
          then Inr \<lparr>info_raw_query = raw, vars = non_recipe_matches\<rparr>
          else (case get_matches lib d e [''recipe'', ''power-recipe''] of
                  Inl err \<Rightarrow> Inl err
                | Inr recipe_matches \<Rightarrow>
                    if length recipe_matches = 0 then Inl (could_not_parse ''entity'' e)
                    else Inr \<lparr>info_raw_query = raw, vars = recipe_matches\<rparr>))"

section \<open>The dispatch of \<^verbatim>\<open>QueryParser.parse\<close>\<close>

text \<open>
  The grammar itself (pyparsing) is not modelled; \<open>parse_results\<close> is what it hands to
  \<^verbatim>\<open>parse\<close>, one constructor for each named alternative of \<^verbatim>\<open>query_grammar\<close>:
  \<^item> \<open>Help\<close>: \<^verbatim>\<open>help\<close>;
  \<^item> \<open>Optimization\<close>: the output, input, include and exclude clauses;
  \<^item> \<open>SingleRecipe X\<close>: \<^verbatim>\<open>Suppress(RECIPE) + entity_expr\<close>, the text \<^verbatim>\<open>recipe X\<close>;
  \<^item> \<open>RecipeFor X\<close>: \<^verbatim>\<open>Suppress(RECIPE + FOR) + entity_expr\<close> or
    \<^verbatim>\<open>entity_expr + Suppress(RECIPE)\<close>, the texts \<^verbatim>\<open>recipe for X\<close> and \<^verbatim>\<open>X recipe\<close>;
  \<^item> \<open>RecipesFor X\<close>: the texts \<^verbatim>\<open>recipes for X\<close> and \<^verbatim>\<open>X recipes\<close>;
  \<^item> \<open>RecipesFrom X\<close>: \<^verbatim>\<open>recipes from X\<close>, \<^verbatim>\<open>recipes using X\<close>, \<^verbatim>\<open>recipes with X\<close>;
  \<^item> \<open>RecipeCompare X b\<close>: \<^verbatim>\<open>compare recipes for X\<close>, \<open>b\<close> for a trailing
    \<^verbatim>\<open>without alternate recipes\<close>;
  \<^item> \<open>EntityDetails X\<close>: a bare entity expression.
  The chain of \<^verbatim>\<open>if\<close> and \<^verbatim>\<open>elif\<close> tests the names in the order of the cases below.
\<close>

datatype parse_results =
    Help
  | Optimization "clause list" "clause list" "target list" "exclude_target list"
  | SingleRecipe string
  | RecipeFor string
  | RecipesFor string
  | RecipesFrom string
  | RecipeCompare string bool
  | EntityDetails string

datatype query =
    HelpQuery
  | OptimizationQ optimization_query
  | InfoQ info_query
  | RecipeCompareQ recipe_compare_query

definition lift_query :: "('a \<Rightarrow> query) \<Rightarrow> error + 'a \<Rightarrow> error + query" where
  "lift_query f r = (case r of Inl err \<Rightarrow> Inl err | Inr q \<Rightarrow> Inr (f q))"

fun parse :: "library \<Rightarrow> db \<Rightarrow> bool \<Rightarrow> string \<Rightarrow> parse_results \<Rightarrow> error + query" where
  "parse lib d mx raw Help = Inr HelpQuery"
| "parse lib d mx raw (Optimization outputs inputs includes excludes) =
     lift_query OptimizationQ (parse_optimization_query lib d raw mx outputs inputs includes excludes)"
| "parse lib d mx raw (SingleRecipe e) = lift_query InfoQ (parse_single_recipe_query lib d raw e)"
| "parse lib d mx raw (RecipeFor e) = lift_query InfoQ (parse_recipe_for_query lib d raw e)"
| "parse lib d mx raw (RecipesFor e) = lift_query InfoQ (parse_recipes_for_query lib d raw e)"
| "parse lib d mx raw (RecipesFrom e) = lift_query InfoQ (parse_recipes_from_query lib d raw e)"
| "parse lib d mx raw (RecipeCompare e excl) =
     lift_query RecipeCompareQ (parse_recipe_compare_query lib d raw e excl)"
| "parse lib d mx raw (EntityDetails e) = lift_query InfoQ (parse_entity_details lib d raw e)"

section \<open>The flow graph (\<^verbatim>\<open>OptimizationResult.generate_graph_viz\<close>)\<close>

text \<open>
  Modelled from the spec: the optimizer that fills \<^verbatim>\<open>vars\<close> is not under the sources.  By
  sections 3 and 4.4 of the spec there is one solver variable for every catalog var and one
  for \<^verbatim>\<open>power\<close>, so a solution is a total function; \<open>None\<close> is the value \<^verbatim>\<open>None\<close> of a
  variable that the solver left unset.  Solver values are floating-point numbers in the
  source; the model computes with exact rationals.
\<close>

type_synonym solution = "string \<Rightarrow> rat option"

definition has_value :: "solution \<Rightarrow> string \<Rightarrow> bool" where
  "has_value sol v = (case sol v of None \<Rightarrow> False | Some x \<Rightarrow> x \<noteq> 0)"

text \<open>\<open>get_value\<close> is only read behind \<open>has_value\<close>; the case \<open>None\<close> is never reached.\<close>

definition get_value :: "solution \<Rightarrow> string \<Rightarrow> rat" where
  "get_value sol v = (case sol v of None \<Rightarrow> 0 | Some x \<Rightarrow> x)"

type_synonym targets = "(string \<times> (string \<times> rat) list) list"

definition add_to_target :: "string \<Rightarrow> targets \<Rightarrow> string \<Rightarrow> rat \<Rightarrow> targets" where
  "add_to_target item_var targets target amount =
     (let targets1 = (if item_var \<notin> fst ` set targets
                      then AList.update item_var [] targets else targets);
          inner = (case map_of targets1 item_var of None \<Rightarrow> [] | Some i \<Rightarrow> i)
      in AList.update item_var (AList.update target amount inner) targets1)"

definition item_step :: "solution \<Rightarrow> entity \<Rightarrow> targets \<times> targets \<Rightarrow> targets \<times> targets" where
  "item_step sol item st =
     (case st of (sources, sinks) \<Rightarrow>
        if \<not> has_value sol (var item) then (sources, sinks)
        else (let amount = get_value sol (var item)
              in if amount < 0
                 then (add_to_target (var item) sources (viz_name item) (get_value sol (var item)), sinks)
                 else (sources, add_to_target (var item) sinks (viz_name item) (get_value sol (var item)))))"

definition recipe_step :: "solution \<Rightarrow> entity \<Rightarrow> targets \<times> targets \<Rightarrow> targets \<times> targets" where
  "recipe_step sol recipe st =
     (case st of (sources, sinks) \<Rightarrow>
        if \<not> has_value sol (var recipe) then (sources, sinks)
        else (let recipe_amount = get_value sol (var recipe);
                  sinks1 = fold (\<lambda>(item_var, rate) t.
                              add_to_target item_var t (viz_name recipe) (recipe_amount * rate))
                            (ingredients recipe) sinks;
                  sources1 = fold (\<lambda>(item_var, rate) t.
                                add_to_target item_var t (viz_name recipe) (recipe_amount * rate))
                              (products recipe) sources
              in (sources1, sinks1)))"

text \<open>The state of the loop over the power recipes: the sinks, the power output, the power edges.\<close>

definition power_recipe_step ::
  "solution \<Rightarrow> entity \<Rightarrow> targets \<times> rat \<times> (string \<times> rat) list
     \<Rightarrow> targets \<times> rat \<times> (string \<times> rat) list" where
  "power_recipe_step sol pr st =
     (case st of (sinks, power_output, power_edges) \<Rightarrow>
        if \<not> has_value sol (var pr) then (sinks, power_output, power_edges)
        else (let fuel_amount = get_value sol (var pr) * fuel_minute_rate pr;
                  sinks1 = add_to_target (fuel_item_var pr) sinks (viz_name pr) fuel_amount;
                  production = get_value sol (var pr) * power_production pr
              in (sinks1, power_output + production, power_edges @ [(viz_name pr, production)])))"

record edge =
  e_source :: string
  e_sink :: string
  e_item :: string
  e_amount :: rat

text \<open>
  The edges that leave one source of one item.  The label of the edge in the source is the
  amount rounded to two places and the name of the item; the model keeps the amount that is
  handed to \<^verbatim>\<open>get_edge_label\<close>.  Dividing by a total of zero raises.
\<close>

definition source_edges :: "string \<Rightarrow> (string \<times> rat) list \<Rightarrow> string \<times> rat \<Rightarrow> error + edge list" where
  "source_edges item_name item_sinks src =
     (case src of (source, source_amount) \<Rightarrow>
        (let total_sink_amount = sum_list (map snd item_sinks)
         in if total_sink_amount = 0 then Inl ZeroDivisionError
            else (let multiplier = source_amount / total_sink_amount
                  in Inr (map (\<lambda>(sink, sink_amount).
                                 \<lparr>e_source = source, e_sink = sink, e_item = item_name,
                                  e_amount = multiplier * sink_amount\<rparr>) item_sinks))))"

fun collect :: "('a \<Rightarrow> error + 'b list) \<Rightarrow> 'a list \<Rightarrow> error + 'b list" where
  "collect f [] = Inr []"
| "collect f (x # xs) =
     (case f x of
        Inl err \<Rightarrow> Inl err
      | Inr ys \<Rightarrow> (case collect f xs of Inl err \<Rightarrow> Inl err | Inr zs \<Rightarrow> Inr (ys @ zs)))"

definition item_edges :: "db \<Rightarrow> targets \<Rightarrow> string \<times> (string \<times> rat) list \<Rightarrow> error + edge list" where
  "item_edges d sinks entry =
     (case entry of (item_var, item_sources) \<Rightarrow>
        (case map_of (items d) item_var of
           None \<Rightarrow> Inl (KeyError item_var)
         | Some item \<Rightarrow>
             (case map_of sinks item_var of
                None \<Rightarrow> Inr []
              | Some item_sinks \<Rightarrow>
                  collect (source_edges (human_readable_name item) item_sinks) item_sources)))"

definition connect :: "db \<Rightarrow> targets \<Rightarrow> targets \<Rightarrow> error + edge list" where
  "connect d sources sinks = collect (item_edges d sinks) sources"

record graph =
  power_edges :: "(string \<times> rat) list"
  power_output :: rat
  net_power :: rat
  flow_edges :: "edge list"

definition build_targets :: "db \<Rightarrow> solution \<Rightarrow> targets \<times> targets" where
  "build_targets d sol =
     fold (recipe_step sol) (recipes d)
       (fold (item_step sol) (dict_values (items d)) ([], []))"

definition generate_graph_viz :: "db \<Rightarrow> solution \<Rightarrow> error + graph" where
  "generate_graph_viz d sol =
     (case build_targets d sol of (sources, sinks0) \<Rightarrow>
        (let net = (if has_value sol ''power'' then get_value sol ''power'' else 0)
         in case fold (power_recipe_step sol) (power_recipes d) (sinks0, 0, []) of
              (sinks, out, pedges) \<Rightarrow>
                (case connect d sources sinks of
                   Inl err \<Rightarrow> Inl err
                 | Inr es \<Rightarrow>
                     Inr \<lparr>power_edges = pedges, power_output = out, net_power = net,
                          flow_edges = es\<rparr>)))"

section \<open>Results and their messages (\<^verbatim>\<open>ada/result.py\<close>)\<close>

text \<open>
  The five solver statuses of the library \<^verbatim>\<open>pulp\<close>.  They are small integers there, and the
  source compares them with \<^verbatim>\<open>is\<close>, which on these values is equality.
\<close>

datatype lp_status =
  LpStatusOptimal | LpStatusNotSolved | LpStatusInfeasible | LpStatusUnbounded | LpStatusUndefined

text \<open>
  A result object, with what its \<^verbatim>\<open>__str__\<close> and \<^verbatim>\<open>message\<close> read.  For an optimization
  result \<open>string_solution\<close> stands for the report that \<^verbatim>\<open>__string_solution\<close> formats from
  the solution; for a comparison the two tables are the texts that \<^verbatim>\<open>tabulate\<close> returns in
  the format \<^verbatim>\<open>simple\<close>.
\<close>

datatype result =
    HelpResult
  | ErrorResult string
  | InfoResult "entity list"
  | OptimizationResult lp_status db solution string
  | RecipeCompareResult string string string

text \<open>
  Of a \<^verbatim>\<open>ResultMessage\<close> the model keeps the title of the embed where this file sets it
  (\<open>None\<close> where the embed comes from the entity) and the content.
\<close>

record result_message =
  embed_title :: "string option"
  content :: string

definition OptimizationResult_str :: "lp_status \<Rightarrow> string \<Rightarrow> string" where
  "OptimizationResult_str status string_solution =
     (if status = LpStatusNotSolved then ''No solution has been found.''
      else if status = LpStatusUndefined then ''No solution has been found.''
      else if status = LpStatusInfeasible
      then ''Solution is infeasible, try removing a constraint or allowing a byproduct (e.g. rubber >= 0)''
      else if status = LpStatusUnbounded
      then ''Solution is unbounded, try adding a constraint or replacing ''
           @ [CHR 0x27] @ ''?'' @ [CHR 0x27] @ '' with a concrete value (e.g. 1000)''
      else string_solution)"

function str_nat :: "nat \<Rightarrow> string" where
  "str_nat n = (if n < 10 then [char_of (48 + n)] else str_nat (n div 10) @ [char_of (48 + n mod 10)])"
  by pat_completeness auto
termination
  by (relation "measure id") auto

definition compare_content :: "string \<Rightarrow> string \<Rightarrow> string \<Rightarrow> string \<Rightarrow> string" where
  "compare_content breadcrumbs product_name overall_table input_table =
     breadcrumbs @ [CHR 0x0A]
     @ join [CHR 0x0A]
         [''All recipes that produce '' @ product_name,
          ''```'' @ [CHR 0x0A] @ overall_table @ ''```'',
          ''Raw Inputs for 1/m '' @ product_name,
          ''```'' @ [CHR 0x0A] @ input_table @ ''```'']"

text \<open>\<open>breadcrumbs\<close> is the text \<^verbatim>\<open>str(breadcrumbs)\<close>.\<close>

fun message :: "result \<Rightarrow> string \<Rightarrow> error + result_message" where
  "message HelpResult breadcrumbs = Inr \<lparr>embed_title = Some ''Help'', content = breadcrumbs\<rparr>"
| "message (ErrorResult msg) breadcrumbs =
     Inr \<lparr>embed_title = Some ''Error'', content = breadcrumbs\<rparr>"
| "message (InfoResult vs) breadcrumbs =
     (if length vs = 0 then Inr \<lparr>embed_title = Some ''No matches found'', content = breadcrumbs\<rparr>
      else if length vs > 1
      then Inr \<lparr>embed_title = Some (''Found '' @ str_nat (length vs) @ '' matches:''),
                content = breadcrumbs\<rparr>
      else Inr \<lparr>embed_title = None, content = breadcrumbs\<rparr>)"
| "message (OptimizationResult status d sol string_solution) breadcrumbs =
     (if status = LpStatusOptimal
      then (case generate_graph_viz d sol of
              Inl err \<Rightarrow> Inl err
            | Inr g \<Rightarrow> Inr \<lparr>embed_title = Some ''Optimization Query'', content = breadcrumbs\<rparr>)
      else Inr \<lparr>embed_title = Some (OptimizationResult_str status string_solution),
                content = breadcrumbs\<rparr>)"
| "message (RecipeCompareResult product_name overall_table input_table) breadcrumbs =
     (let c = compare_content breadcrumbs product_name overall_table input_table
      in Inr \<lparr>embed_title = None,
              content = (if length c > 2000 then ''Output was too long'' else c)\<rparr>)"

section \<open>A small catalog for concrete inputs\<close>

definition plain :: "string \<Rightarrow> string \<Rightarrow> string \<Rightarrow> entity" where
  "plain v n sl =
     \<lparr>var = v, human_readable_name = n, slug = sl, is_resource = False, is_alternate = False,
      viz_name = sl, ingredients = [], products = [], crafter_var = [], generator_var = [],
      fuel_item_var = [], fuel_minute_rate = 0, power_production = 0\<rparr>"

definition iron_ore :: entity where
  "iron_ore = (plain ''item:iron-ore'' ''Iron Ore'' ''iron-ore'')\<lparr>is_resource := True\<rparr>"

definition iron_ingot :: entity where
  "iron_ingot = plain ''item:iron-ingot'' ''Iron Ingot'' ''iron-ingot''"

definition iron_rod :: entity where
  "iron_rod = plain ''item:iron-rod'' ''Iron Rod'' ''iron-rod''"

definition turbofuel :: entity where
  "turbofuel = plain ''item:turbofuel'' ''Turbofuel'' ''turbofuel''"

definition recipe_iron_ingot :: entity where
  "recipe_iron_ingot = (plain ''recipe:iron-ingot'' ''Recipe: Iron Ingot'' ''iron-ingot'')
     \<lparr>ingredients := [(''item:iron-ore'', 30)], products := [(''item:iron-ingot'', 30)],
      crafter_var := ''crafter:smelter''\<rparr>"

definition recipe_iron_rod :: entity where
  "recipe_iron_rod = (plain ''recipe:iron-rod'' ''Recipe: Iron Rod'' ''iron-rod'')
     \<lparr>ingredients := [(''item:iron-ingot'', 15)], products := [(''item:iron-rod'', 15)],
      crafter_var := ''crafter:constructor''\<rparr>"

definition recipe_steel_rod :: entity where
  "recipe_steel_rod =
     (plain ''recipe:alternate:steel-rod'' ''Recipe: Alternate: Steel Rod'' ''alternate:steel-rod'')
     \<lparr>is_alternate := True, ingredients := [(''item:iron-ingot'', 12)],
      products := [(''item:iron-rod'', 48)], crafter_var := ''crafter:constructor''\<rparr>"

definition recipe_turbofuel :: entity where
  "recipe_turbofuel =
     (plain ''recipe:alternate:turbofuel'' ''Recipe: Alternate: Turbofuel'' ''alternate:turbofuel'')
     \<lparr>is_alternate := True, products := [(''item:turbofuel'', 18)],
      crafter_var := ''crafter:blender''\<rparr>"

definition recipe_turbo_heavy_fuel :: entity where
  "recipe_turbo_heavy_fuel =
     (plain ''recipe:alternate:turbo-heavy-fuel'' ''Recipe: Alternate: Turbo Heavy Fuel''
        ''alternate:turbo-heavy-fuel'')
     \<lparr>is_alternate := True, products := [(''item:turbofuel'', 30)],
      crafter_var := ''crafter:blender''\<rparr>"

definition demo_recipes :: "entity list" where
  "demo_recipes =
     [recipe_iron_ingot, recipe_iron_rod, recipe_steel_rod, recipe_turbofuel,
      recipe_turbo_heavy_fuel]"

definition demo_db :: db where
  "demo_db =
     \<lparr>items = map (\<lambda>i. (var i, i)) [iron_ore, iron_ingot, iron_rod, turbofuel],
      recipes = demo_recipes,
      power_recipes = [],
      crafters = [plain ''crafter:constructor'' ''Constructor'' ''constructor'',
                  plain ''crafter:smelter'' ''Smelter'' ''smelter'',
                  plain ''crafter:blender'' ''Blender'' ''blender''],
      generators = [],
      recipes_for_product = (\<lambda>v. filter (\<lambda>r. v \<in> set (map fst (products r))) demo_recipes),
      recipes_for_ingredient = (\<lambda>v. filter (\<lambda>r. v \<in> set (map fst (ingredients r))) demo_recipes)\<rparr>"







section \<open>Notions used in the statements\<close>

text \<open>
  The number of \<^verbatim>\<open>?\<close> markers in a list of clauses, and the targets that resolve: a
  literal, or an entity expression with at least one match in the allowed categories.
\<close>

definition objective_markers :: "clause list \<Rightarrow> nat" where
  "objective_markers cs = length (filter (\<lambda>c. c_value c = Objective) cs)"

definition resolvable :: "library \<Rightarrow> db \<Rightarrow> string list \<Rightarrow> target \<Rightarrow> bool" where
  "resolvable lib d allowed_types t =
     (case t of
        Literal l \<Rightarrow> True
      | Entity e \<Rightarrow>
          (case get_matches lib d e allowed_types of
             Inl err \<Rightarrow> False
           | Inr ms \<Rightarrow> ms \<noteq> []))"

text \<open>Each of the three constraint maps is a dictionary: no key twice.\<close>

definition distinct_keys :: "optimization_query \<Rightarrow> bool" where
  "distinct_keys q \<longleftrightarrow>
     distinct (map fst (eq_constraints q)) \<and> distinct (map fst (ge_constraints q))
     \<and> distinct (map fst (le_constraints q))"

text \<open>
  The writes of the clauses to the three constraint maps, as the spec gives them: an output
  clause with a number writes that number for its vars to \<open>eq_constraints\<close> and one with
  \<^verbatim>\<open>any\<close> writes 0 to \<open>ge_constraints\<close>; an input clause with a number \<open>n\<close> writes \<open>- n\<close> to
  \<open>ge_constraints\<close> and one with \<^verbatim>\<open>any\<close> writes 0 to \<open>le_constraints\<close>; an include clause writes
  0 to \<open>ge_constraints\<close> and an exclude clause writes 0 to \<open>eq_constraints\<close>.  The lists hold
  the writes of one map in the order outputs, inputs, includes, excludes, the clauses of one
  section in their order; \<open>last_write\<close> is the bound of the last write to a var in such a
  list, or \<open>None\<close> where no write names the var.
\<close>

definition clause_vars :: "library \<Rightarrow> db \<Rightarrow> string list \<Rightarrow> string \<Rightarrow> target \<Rightarrow> string list" where
  "clause_vars lib d allowed_types what t =
     (case target_vars lib d allowed_types what t of Inl err \<Rightarrow> [] | Inr vs \<Rightarrow> vs)"

definition excluded_vars :: "library \<Rightarrow> db \<Rightarrow> exclude_target \<Rightarrow> string list" where
  "excluded_vars lib d x = (case exclude_vars lib d x of Inl err \<Rightarrow> [] | Inr vs \<Rightarrow> vs)"

definition bounds :: "string list \<Rightarrow> int \<Rightarrow> (string \<times> int) list" where
  "bounds vs x = map (\<lambda>v. (v, x)) vs"

definition output_eq_writes :: "library \<Rightarrow> db \<Rightarrow> clause \<Rightarrow> (string \<times> int) list" where
  "output_eq_writes lib d c =
     (case c_value c of
        Num n \<Rightarrow> bounds (clause_vars lib d [''item''] ''item'' (c_target c)) (int n)
      | _ \<Rightarrow> [])"

definition output_ge_writes :: "library \<Rightarrow> db \<Rightarrow> clause \<Rightarrow> (string \<times> int) list" where
  "output_ge_writes lib d c =
     (case c_value c of
        AnyValue \<Rightarrow> bounds (clause_vars lib d [''item''] ''item'' (c_target c)) 0
      | _ \<Rightarrow> [])"

definition input_ge_writes :: "library \<Rightarrow> db \<Rightarrow> clause \<Rightarrow> (string \<times> int) list" where
  "input_ge_writes lib d c =
     (case c_value c of
        Num n \<Rightarrow>
          bounds (clause_vars lib d [''resource'', ''item''] ''resource or item'' (c_target c))
            (- int n)
      | _ \<Rightarrow> [])"

definition input_le_writes :: "library \<Rightarrow> db \<Rightarrow> clause \<Rightarrow> (string \<times> int) list" where
  "input_le_writes lib d c =
     (case c_value c of
        AnyValue \<Rightarrow>
          bounds (clause_vars lib d [''resource'', ''item''] ''resource or item'' (c_target c)) 0
      | _ \<Rightarrow> [])"

definition include_ge_writes :: "library \<Rightarrow> db \<Rightarrow> target \<Rightarrow> (string \<times> int) list" where
  "include_ge_writes lib d t = bounds (clause_vars lib d building_types building_what t) 0"

definition exclude_eq_writes :: "library \<Rightarrow> db \<Rightarrow> exclude_target \<Rightarrow> (string \<times> int) list" where
  "exclude_eq_writes lib d x = bounds (excluded_vars lib d x) 0"

definition eq_writes ::
  "library \<Rightarrow> db \<Rightarrow> clause list \<Rightarrow> exclude_target list \<Rightarrow> (string \<times> int) list" where
  "eq_writes lib d outputs excludes =
     concat (map (output_eq_writes lib d) outputs) @ concat (map (exclude_eq_writes lib d) excludes)"

definition ge_writes ::
  "library \<Rightarrow> db \<Rightarrow> clause list \<Rightarrow> clause list \<Rightarrow> target list \<Rightarrow> (string \<times> int) list" where
  "ge_writes lib d outputs inputs includes =
     concat (map (output_ge_writes lib d) outputs) @ concat (map (input_ge_writes lib d) inputs)
     @ concat (map (include_ge_writes lib d) includes)"

definition le_writes :: "library \<Rightarrow> db \<Rightarrow> clause list \<Rightarrow> (string \<times> int) list" where
  "le_writes lib d inputs = concat (map (input_le_writes lib d) inputs)"

definition last_write :: "(string \<times> int) list \<Rightarrow> string \<Rightarrow> int option" where
  "last_write ws v = map_of (rev ws) v"

text \<open>
  A step from \<open>q\<close> to \<open>q'\<close> that changes the map \<open>field\<close> by the writes \<open>ws\<close> and by nothing else.
\<close>

definition writes_to ::
  "(optimization_query \<Rightarrow> (string \<times> int) list) \<Rightarrow> optimization_query \<Rightarrow> (string \<times> int) list
     \<Rightarrow> optimization_query \<Rightarrow> bool" where
  "writes_to field q ws q' \<longleftrightarrow>
     (\<forall>k. map_of (field q') k
            = (case last_write ws k of None \<Rightarrow> map_of (field q) k | Some y \<Rightarrow> Some y))"



section \<open>Rendering of results\<close>

text \<open>
  C7.  For the solver statuses infeasible, unbounded, not solved and undefined, the string
  form of an optimization result is the canned explanation of the status, and the message
  form is a message (no exception) whose embed title is that text and whose content is the
  breadcrumbs, whatever the database, the solution and the report text are.
\<close>

theorem status_rendering:
  "OptimizationResult_str LpStatusInfeasible s =
     ''Solution is infeasible, try removing a constraint or allowing a byproduct (e.g. rubber >= 0)''
   \<and> OptimizationResult_str LpStatusUnbounded s =
     ''Solution is unbounded, try adding a constraint or replacing '' @ [CHR 0x27] @ ''?'' @ [CHR 0x27]
       @ '' with a concrete value (e.g. 1000)''
   \<and> OptimizationResult_str LpStatusNotSolved s = ''No solution has been found.''
   \<and> OptimizationResult_str LpStatusUndefined s = ''No solution has been found.''
   \<and> message (OptimizationResult LpStatusInfeasible d sol s) bc =
       Inr \<lparr>embed_title = Some ''Solution is infeasible, try removing a constraint or allowing a byproduct (e.g. rubber >= 0)'',
            content = bc\<rparr>
   \<and> message (OptimizationResult LpStatusUnbounded d sol s) bc =
       Inr \<lparr>embed_title = Some (''Solution is unbounded, try adding a constraint or replacing '' @ [CHR 0x27] @ ''?'' @ [CHR 0x27]
                 @ '' with a concrete value (e.g. 1000)''),
            content = bc\<rparr>
   \<and> message (OptimizationResult LpStatusNotSolved d sol s) bc =
       Inr \<lparr>embed_title = Some ''No solution has been found.'', content = bc\<rparr>
   \<and> message (OptimizationResult LpStatusUndefined d sol s) bc =
       Inr \<lparr>embed_title = Some ''No solution has been found.'', content = bc\<rparr>"
  by (simp add: OptimizationResult_str_def)

text \<open>
  C8 as stated fails: the messages of a help result, an error result, an info result and an
  optimization result carry breadcrumbs of 2001 characters unchanged.
\<close>

theorem content_cap_counterexample:
  "message HelpResult (replicate 2001 (CHR ''a''))
     = Inr \<lparr>embed_title = Some ''Help'', content = replicate 2001 (CHR ''a'')\<rparr>
   \<and> message (ErrorResult ''Unknown query.'') (replicate 2001 (CHR ''a''))
     = Inr \<lparr>embed_title = Some ''Error'', content = replicate 2001 (CHR ''a'')\<rparr>
   \<and> message (InfoResult []) (replicate 2001 (CHR ''a''))
     = Inr \<lparr>embed_title = Some ''No matches found'', content = replicate 2001 (CHR ''a'')\<rparr>
   \<and> message (OptimizationResult LpStatusNotSolved demo_db (\<lambda>v. None) []) (replicate 2001 (CHR ''a''))
     = Inr \<lparr>embed_title = Some ''No solution has been found.'', content = replicate 2001 (CHR ''a'')\<rparr>
   \<and> length (replicate 2001 (CHR ''a'')) > 2000
   \<and> replicate 2001 (CHR ''a'') \<noteq> ''Output was too long''"
proof -
  have "length (replicate 2001 (CHR ''a'')) \<noteq> length ''Output was too long''"
    by simp
  then have "replicate 2001 (CHR ''a'') \<noteq> ''Output was too long''"
    by metis
  then show ?thesis
    by (simp add: OptimizationResult_str_def)
qed

text \<open>
  C8, amended.  The message of a recipe comparison never has a content of more than 2000
  characters: a combined text of more than 2000 characters is replaced by the placeholder
  \<^verbatim>\<open>Output was too long\<close>, and a shorter one is emitted as it is.
\<close>

theorem compare_content_cap:
  "message (RecipeCompareResult p t1 t2) bc = Inr m \<Longrightarrow>
     length (content m) \<le> 2000
     \<and> (length (compare_content bc p t1 t2) > 2000 \<longrightarrow> content m = ''Output was too long'')
     \<and> (length (compare_content bc p t1 t2) \<le> 2000 \<longrightarrow> content m = compare_content bc p t1 t2)"
  by (auto simp: Let_def)

theorem compare_content_cap_witness:
  "message (RecipeCompareResult ''Iron Rod'' [] []) (replicate 2001 (CHR ''a''))
     = Inr \<lparr>embed_title = None, content = ''Output was too long''\<rparr>
   \<and> length (content \<lparr>embed_title = None, content = ''Output was too long''\<rparr>) \<le> 2000"
proof -
  have m: "message (RecipeCompareResult ''Iron Rod'' [] []) (replicate 2001 (CHR ''a''))
     = Inr \<lparr>embed_title = None, content = ''Output was too long''\<rparr>"
    by (simp add: compare_content_def)
  from compare_content_cap [OF m] m show ?thesis by simp
qed


section \<open>Recipe comparison and recipe queries\<close>

lemma find_base_first:
  "\<forall>y\<in>set ys. slug y \<noteq> s \<Longrightarrow> slug b = s \<Longrightarrow> find_base s (ys @ b # zs) = Some b"
  by (induction ys) auto

lemma find_base_none: "\<forall>r\<in>set rs. slug r \<noteq> s \<Longrightarrow> find_base s rs = None"
  by (induction rs) auto

lemma remove1_first: "b \<notin> set ys \<Longrightarrow> remove1 b (ys @ b # zs) = ys @ zs"
  by (induction ys) auto

text \<open>
  C6.  For a recipe comparison whose entity expression resolves to the single item \<open>p\<close>:
  a sole producing recipe is the base recipe and there are no related recipes; among several
  producing recipes the first one whose slug is the slug of \<open>p\<close> is the base recipe and the
  others, in their order, are the related recipes; several producing recipes none of which
  has the slug of \<open>p\<close> raise \<^verbatim>\<open>Could not find base recipe for\<close> and the name of \<open>p\<close>.
\<close>

theorem compare_base_recipe:
  assumes "get_matches lib d e [''item''] = Inr [p]"
  shows "(\<forall>r. recipes_for_product d (var p) = [r] \<longrightarrow>
            parse_recipe_compare_query lib d raw e x =
              Inr \<lparr>compare_raw_query = raw, product_item = p, base_recipe = r,
                   related_recipes = [], exclude_alternates = x\<rparr>)
       \<and> (\<forall>ys b zs. recipes_for_product d (var p) = ys @ b # zs \<and> ys @ zs \<noteq> []
              \<and> (\<forall>y\<in>set ys. slug y \<noteq> slug p) \<and> slug b = slug p \<longrightarrow>
            parse_recipe_compare_query lib d raw e x =
              Inr \<lparr>compare_raw_query = raw, product_item = p, base_recipe = b,
                   related_recipes = ys @ zs, exclude_alternates = x\<rparr>)
       \<and> (length (recipes_for_product d (var p)) > 1
              \<and> (\<forall>r\<in>set (recipes_for_product d (var p)). slug r \<noteq> slug p) \<longrightarrow>
            parse_recipe_compare_query lib d raw e x =
              Inl (QueryParseException
                    (''Could not find base recipe for '' @ human_readable_name p)))"
proof (intro conjI allI impI)
  fix r
  assume "recipes_for_product d (var p) = [r]"
  with assms show "parse_recipe_compare_query lib d raw e x =
      Inr \<lparr>compare_raw_query = raw, product_item = p, base_recipe = r,
           related_recipes = [], exclude_alternates = x\<rparr>"
    by (simp add: parse_recipe_compare_query_def)
next
  fix ys b zs
  assume h: "recipes_for_product d (var p) = ys @ b # zs \<and> ys @ zs \<noteq> []
              \<and> (\<forall>y\<in>set ys. slug y \<noteq> slug p) \<and> slug b = slug p"
  then have len: "length (recipes_for_product d (var p)) \<noteq> 0"
      "length (recipes_for_product d (var p)) \<noteq> 1"
    by (cases ys; cases zs; simp)+
  from h have fb: "find_base (slug p) (recipes_for_product d (var p)) = Some b"
    by (simp add: find_base_first)
  from h have "b \<notin> set ys" by auto
  with h have rm: "remove1 b (recipes_for_product d (var p)) = ys @ zs"
    by (simp add: remove1_first)
  from assms len fb rm show "parse_recipe_compare_query lib d raw e x =
      Inr \<lparr>compare_raw_query = raw, product_item = p, base_recipe = b,
           related_recipes = ys @ zs, exclude_alternates = x\<rparr>"
    by (simp add: parse_recipe_compare_query_def Let_def)
next
  assume h: "length (recipes_for_product d (var p)) > 1
              \<and> (\<forall>r\<in>set (recipes_for_product d (var p)). slug r \<noteq> slug p)"
  then have "find_base (slug p) (recipes_for_product d (var p)) = None"
    by (simp add: find_base_none)
  moreover from h have "length (recipes_for_product d (var p)) \<noteq> 0"
      "length (recipes_for_product d (var p)) \<noteq> 1"
    by auto
  ultimately show "parse_recipe_compare_query lib d raw e x =
      Inl (QueryParseException (''Could not find base recipe for '' @ human_readable_name p))"
    using assms by (simp add: parse_recipe_compare_query_def Let_def)
qed

theorem compare_base_recipe_witness:
  "parse_recipe_compare_query fragment_library demo_db ''compare recipes for iron ingot'' ''iron ingot'' False
     = Inr \<lparr>compare_raw_query = ''compare recipes for iron ingot'', product_item = iron_ingot,
            base_recipe = recipe_iron_ingot, related_recipes = [], exclude_alternates = False\<rparr>
   \<and> parse_recipe_compare_query fragment_library demo_db ''compare recipes for iron rods'' ''iron rods'' False
     = Inr \<lparr>compare_raw_query = ''compare recipes for iron rods'', product_item = iron_rod,
            base_recipe = recipe_iron_rod, related_recipes = [recipe_steel_rod],
            exclude_alternates = False\<rparr>
   \<and> parse_recipe_compare_query fragment_library demo_db ''compare recipes for turbofuel'' ''turbofuel'' False
     = Inl (QueryParseException ''Could not find base recipe for Turbofuel'')"
proof -
  have m1: "get_matches fragment_library demo_db ''iron ingot'' [''item''] = Inr [iron_ingot]"
    by code_simp
  have r1: "recipes_for_product demo_db (var iron_ingot) = [recipe_iron_ingot]"
    by code_simp
  have m2: "get_matches fragment_library demo_db ''iron rods'' [''item''] = Inr [iron_rod]"
    by code_simp
  have r2: "recipes_for_product demo_db (var iron_rod) = [] @ recipe_iron_rod # [recipe_steel_rod]"
    by code_simp
  have s2: "slug recipe_iron_rod = slug iron_rod"
    by code_simp
  have m3: "get_matches fragment_library demo_db ''turbofuel'' [''item''] = Inr [turbofuel]"
    by code_simp
  have r3: "recipes_for_product demo_db (var turbofuel) = [recipe_turbofuel, recipe_turbo_heavy_fuel]"
    by code_simp
  have s3: "slug recipe_turbofuel \<noteq> slug turbofuel" "slug recipe_turbo_heavy_fuel \<noteq> slug turbofuel"
    by code_simp+
  have n3: "human_readable_name turbofuel = ''Turbofuel''"
    by code_simp
  from compare_base_recipe [OF m1, of "''compare recipes for iron ingot''" False] r1
  have c1: "parse_recipe_compare_query fragment_library demo_db ''compare recipes for iron ingot'' ''iron ingot'' False
     = Inr \<lparr>compare_raw_query = ''compare recipes for iron ingot'', product_item = iron_ingot,
            base_recipe = recipe_iron_ingot, related_recipes = [], exclude_alternates = False\<rparr>"
    by blast
  from compare_base_recipe [OF m2, of "''compare recipes for iron rods''" False] r2 s2
  have c2: "parse_recipe_compare_query fragment_library demo_db ''compare recipes for iron rods'' ''iron rods'' False
     = Inr \<lparr>compare_raw_query = ''compare recipes for iron rods'', product_item = iron_rod,
            base_recipe = recipe_iron_rod, related_recipes = [] @ [recipe_steel_rod],
            exclude_alternates = False\<rparr>"
    by (metis append_Nil empty_iff list.set(1) list.simps(3))
  from compare_base_recipe [OF m3, of "''compare recipes for turbofuel''" False] r3 s3 n3
  have c3: "parse_recipe_compare_query fragment_library demo_db ''compare recipes for turbofuel'' ''turbofuel'' False
     = Inl (QueryParseException ''Could not find base recipe for Turbofuel'')"
    by simp
  from c1 c2 c3 show ?thesis by simp
qed

text \<open>
  C10, amended.  For a query \<^verbatim>\<open>recipe for X\<close> or \<^verbatim>\<open>X recipe\<close> (the parse result \<open>RecipeFor\<close>)
  whose expression matches at least one item, the info query holds exactly the non-alternate
  recipes that produce the matched items when there is one, and otherwise all producing
  recipes, every one of which is then an alternate.
\<close>

theorem recipe_for_non_alternates:
  assumes "get_matches lib d e [''item''] = Inr ms" and "ms \<noteq> []"
  shows "\<exists>q. parse lib d mx raw (RecipeFor e) = Inr (InfoQ q)
           \<and> (let P = (\<Union>m\<in>set ms. set (recipes_for_product d (var m)));
                   N = {r \<in> P. \<not> is_alternate r}
               in (N \<noteq> {} \<longrightarrow> set (vars q) = N)
                \<and> (N = {} \<longrightarrow> set (vars q) = P \<and> (\<forall>r\<in>P. is_alternate r)))"
proof -
  let ?all = "concat (map (\<lambda>m. recipes_for_product d (var m)) ms)"
  let ?non = "filter (\<lambda>r. \<not> is_alternate r) ?all"
  let ?q = "\<lparr>info_raw_query = raw, vars = (if length ?non > 0 then ?non else ?all)\<rparr>"
  from assms have p: "parse lib d mx raw (RecipeFor e) = Inr (InfoQ ?q)"
    by (simp add: parse_recipe_for_query_def lift_query_def Let_def)
  have P: "set ?all = (\<Union>m\<in>set ms. set (recipes_for_product d (var m)))"
    by auto
  have N: "set ?non = {r \<in> set ?all. \<not> is_alternate r}"
    by auto
  have v: "set (vars ?q) = (if set ?non \<noteq> {} then set ?non else set ?all)"
    by (simp only: length_greater_0_conv set_empty info_query.simps if_distrib [of set])
  have "(set ?non \<noteq> {} \<longrightarrow> set (vars ?q) = set ?non)
      \<and> (set ?non = {} \<longrightarrow> set (vars ?q) = set ?all \<and> (\<forall>r\<in>set ?all. is_alternate r))"
    unfolding v by (auto simp: filter_empty_conv)
  then have "let P = (\<Union>m\<in>set ms. set (recipes_for_product d (var m)));
                 N = {r \<in> P. \<not> is_alternate r}
             in (N \<noteq> {} \<longrightarrow> set (vars ?q) = N)
              \<and> (N = {} \<longrightarrow> set (vars ?q) = P \<and> (\<forall>r\<in>P. is_alternate r))"
    unfolding Let_def P [symmetric] N [symmetric] .
  with p show ?thesis by blast
qed

theorem recipe_for_non_alternates_witness:
  "parse fragment_library demo_db True ''recipe for iron rod'' (RecipeFor ''iron rod'')
     = Inr (InfoQ \<lparr>info_raw_query = ''recipe for iron rod'', vars = [recipe_iron_rod]\<rparr>)
   \<and> (\<exists>q. parse fragment_library demo_db True ''recipe for iron rod'' (RecipeFor ''iron rod'')
            = Inr (InfoQ q)
          \<and> set (vars q) = {r \<in> set (recipes_for_product demo_db (var iron_rod)). \<not> is_alternate r})"
proof -
  have m: "get_matches fragment_library demo_db ''iron rod'' [''item''] = Inr [iron_rod]"
    by code_simp
  have n: "[iron_rod] \<noteq> []" by simp
  have r: "recipes_for_product demo_db (var iron_rod) = [recipe_iron_rod, recipe_steel_rod]"
    by code_simp
  have a: "\<not> is_alternate recipe_iron_rod" "is_alternate recipe_steel_rod"
    by code_simp+
  have c: "parse fragment_library demo_db True ''recipe for iron rod'' (RecipeFor ''iron rod'')
     = Inr (InfoQ \<lparr>info_raw_query = ''recipe for iron rod'', vars = [recipe_iron_rod]\<rparr>)"
    by code_simp
  from a r have ne: "{r \<in> (\<Union>m\<in>set [iron_rod]. set (recipes_for_product demo_db (var m))).
                      \<not> is_alternate r} \<noteq> {}"
    by auto
  from recipe_for_non_alternates [OF m n, of True "''recipe for iron rod''"] ne
  have "\<exists>q. parse fragment_library demo_db True ''recipe for iron rod'' (RecipeFor ''iron rod'')
            = Inr (InfoQ q)
          \<and> set (vars q) = {r \<in> set (recipes_for_product demo_db (var iron_rod)). \<not> is_alternate r}"
    by (auto simp: Let_def)
  with c show ?thesis by simp
qed

text \<open>
  C10 as stated fails for the text \<^verbatim>\<open>recipe X\<close>, which is the parse result \<open>SingleRecipe\<close>
  and resolves \<open>X\<close> against the recipes: \<^verbatim>\<open>recipe turbofuel\<close> matches the item Turbofuel,
  which two alternate recipes produce, and yields only the recipe of that name.
\<close>

theorem recipe_query_counterexample:
  "get_matches fragment_library demo_db ''turbofuel'' [''item''] = Inr [turbofuel]
   \<and> recipes_for_product demo_db (var turbofuel) = [recipe_turbofuel, recipe_turbo_heavy_fuel]
   \<and> recipe_turbo_heavy_fuel \<noteq> recipe_turbofuel
   \<and> parse fragment_library demo_db True ''recipe turbofuel'' (SingleRecipe ''turbofuel'')
       = Inr (InfoQ \<lparr>info_raw_query = ''recipe turbofuel'', vars = [recipe_turbofuel]\<rparr>)"
  by code_simp


section \<open>The objective of an optimization query\<close>

subsection \<open>Dictionaries\<close>

lemma fold_update_nonempty: "acc \<noteq> [] \<Longrightarrow> fold (\<lambda>v a. AList.update v x a) vs acc \<noteq> []"
  by (induction vs arbitrary: acc) auto

lemma dict_comp_nonempty: "vs \<noteq> [] \<Longrightarrow> dict_comp vs x \<noteq> []"
  by (cases vs) (auto simp: dict_comp_def fold_update_nonempty)

lemma map_of_fold_update:
  "map_of (fold (\<lambda>v a. AList.update v x a) vs acc) k =
     (if k \<in> set vs then Some x else map_of acc k)"
  by (induction vs arbitrary: acc) (auto simp: update_conv')

lemma map_of_dict_comp: "map_of (dict_comp vs x) k = (if k \<in> set vs then Some x else None)"
  by (simp add: dict_comp_def map_of_fold_update)

lemma distinct_fold_update:
  "distinct (map fst acc) \<Longrightarrow> distinct (map fst (fold (\<lambda>v a. AList.update v x a) vs acc))"
  by (induction vs arbitrary: acc) (auto simp: distinct_update)

lemma distinct_dict_comp: "distinct (map fst (dict_comp vs x))"
  by (simp add: dict_comp_def distinct_fold_update)

lemma distinct_dict_update: "distinct (map fst d) \<Longrightarrow> distinct (map fst (dict_update d new))"
  unfolding dict_update_def
  by (induction new arbitrary: d) (auto simp: distinct_update)

lemma map_of_dict_update:
  "map_of (dict_update d new) k =
     (case map_of (rev new) k of None \<Rightarrow> map_of d k | Some y \<Rightarrow> Some y)"
  unfolding dict_update_def
  by (induction new arbitrary: d) (auto simp: update_conv' split: option.splits)

lemma dict_comp_entries: "(k, y) \<in> set (dict_comp vs x) \<Longrightarrow> y = x \<and> k \<in> set vs"
proof -
  assume "(k, y) \<in> set (dict_comp vs x)"
  then have "map_of (dict_comp vs x) k = Some y"
    by (simp add: map_of_eq_Some_iff distinct_dict_comp)
  then show ?thesis
    by (auto simp: map_of_dict_comp split: if_splits)
qed

lemma dict_comp_keys: "fst ` set (dict_comp vs x) = set vs"
proof -
  have "dom (map_of (dict_comp vs x)) = set vs"
    by (auto simp: map_of_dict_comp dom_def)
  then show ?thesis by (simp add: dom_map_of_conv_image_fst)
qed

lemma map_of_dict_update_comp:
  "map_of (dict_update d (dict_comp vs x)) k = (if k \<in> set vs then Some x else map_of d k)"
proof (cases "k \<in> set vs")
  case True
  then have "k \<in> fst ` set (rev (dict_comp vs x))"
    by (simp add: dict_comp_keys)
  then obtain y where y: "map_of (rev (dict_comp vs x)) k = Some y"
    by (metis map_of_eq_None_iff not_None_eq)
  then have "(k, y) \<in> set (dict_comp vs x)"
    by (auto dest: map_of_SomeD)
  then have "y = x" by (auto dest: dict_comp_entries)
  with y True show ?thesis by (simp add: map_of_dict_update)
next
  case False
  then have "k \<notin> fst ` set (rev (dict_comp vs x))"
    by (simp add: dict_comp_keys)
  then have "map_of (rev (dict_comp vs x)) k = None"
    by (metis map_of_eq_None_iff)
  with False show ?thesis by (simp add: map_of_dict_update)
qed

subsection \<open>Loops\<close>

lemma for_each_preserves:
  assumes "for_each body xs s = Inr s'" and "P s"
    and "\<And>x t t'. x \<in> set xs \<Longrightarrow> body x t = Inr t' \<Longrightarrow> P t \<Longrightarrow> P t'"
  shows "P s'"
  using assms
proof (induction xs arbitrary: s)
  case Nil
  then show ?case by simp
next
  case (Cons x xs)
  from Cons.prems(1) obtain t where t: "body x s = Inr t" and r: "for_each body xs t = Inr s'"
    by (auto split: sum.splits)
  from t Cons.prems(2,3) have "P t" by auto
  show ?case
  proof (rule Cons.IH [OF r \<open>P t\<close>])
    show "\<And>z u u'. z \<in> set xs \<Longrightarrow> body z u = Inr u' \<Longrightarrow> P u \<Longrightarrow> P u'"
      using Cons.prems(3) by auto
  qed
qed

lemma for_each_establishes:
  assumes "for_each body xs s = Inr s'" and "x \<in> set xs"
    and "\<And>t t'. body x t = Inr t' \<Longrightarrow> Q t'"
    and "\<And>y t t'. y \<in> set xs \<Longrightarrow> body y t = Inr t' \<Longrightarrow> Q t \<Longrightarrow> Q t'"
  shows "Q s'"
  using assms
proof (induction xs arbitrary: s)
  case Nil
  then show ?case by simp
next
  case (Cons y ys)
  from Cons.prems(1) obtain t where t: "body y s = Inr t" and r: "for_each body ys t = Inr s'"
    by (auto split: sum.splits)
  show ?case
  proof (cases "x = y")
    case True
    with t Cons.prems(3) have "Q t" by auto
    show ?thesis
    proof (rule for_each_preserves [where P = Q, OF r \<open>Q t\<close>])
      show "\<And>z u u'. z \<in> set ys \<Longrightarrow> body z u = Inr u' \<Longrightarrow> Q u \<Longrightarrow> Q u'"
        using Cons.prems(4) by auto
    qed
  next
    case False
    with Cons.prems(2) have m: "x \<in> set ys" by simp
    show ?thesis
    proof (rule Cons.IH [OF r m])
      show "\<And>t t'. body x t = Inr t' \<Longrightarrow> Q t'" by (rule Cons.prems(3))
      show "\<And>z t t'. z \<in> set ys \<Longrightarrow> body z t = Inr t' \<Longrightarrow> Q t \<Longrightarrow> Q t'"
        using Cons.prems(4) by auto
    qed
  qed
qed

subsection \<open>The objective through the clause handlers\<close>

lemma target_vars_nonempty: "target_vars lib d ts w t = Inr vs \<Longrightarrow> vs \<noteq> []"
  by (auto simp: target_vars_def split: target.splits sum.splits if_splits)

lemma parse_output_objective:
  "parse_output lib d c q = Inr q' \<Longrightarrow> c_value c = Objective \<Longrightarrow>
     objective_coefficients q = [] \<and> objective_coefficients q' \<noteq> []"
  by (auto simp: parse_output_def Let_def dict_comp_nonempty dest!: target_vars_nonempty
      split: sum.splits if_splits)

lemma parse_output_other:
  "parse_output lib d c q = Inr q' \<Longrightarrow> c_value c \<noteq> Objective \<Longrightarrow>
     objective_coefficients q' = objective_coefficients q
     \<and> maximize_objective q' = maximize_objective q"
  by (cases "c_value c") (auto simp: parse_output_def Let_def split: sum.splits if_splits)

lemma parse_input_objective:
  "parse_input lib d c q = Inr q' \<Longrightarrow> c_value c = Objective \<Longrightarrow>
     objective_coefficients q = [] \<and> objective_coefficients q' \<noteq> []"
  by (auto simp: parse_input_def Let_def dict_comp_nonempty dest!: target_vars_nonempty
      split: sum.splits if_splits)

lemma parse_input_other:
  "parse_input lib d c q = Inr q' \<Longrightarrow> c_value c \<noteq> Objective \<Longrightarrow>
     objective_coefficients q' = objective_coefficients q
     \<and> maximize_objective q' = maximize_objective q"
  by (cases "c_value c") (auto simp: parse_input_def Let_def split: sum.splits if_splits)

lemma for_each_markers:
  assumes A: "\<And>c t t'. body c t = Inr t' \<Longrightarrow> c_value c = Objective \<Longrightarrow>
                 objective_coefficients t = [] \<and> objective_coefficients t' \<noteq> []"
    and B: "\<And>c t t'. body c t = Inr t' \<Longrightarrow> c_value c \<noteq> Objective \<Longrightarrow>
                 objective_coefficients t' = objective_coefficients t"
    and run: "for_each body cs q = Inr q'"
  shows "(objective_coefficients q \<noteq> [] \<longrightarrow>
            objective_markers cs = 0 \<and> objective_coefficients q' = objective_coefficients q)
       \<and> (objective_coefficients q = [] \<longrightarrow>
            objective_markers cs \<le> 1
            \<and> (objective_markers cs = 1 \<longleftrightarrow> objective_coefficients q' \<noteq> []))"
  using run
proof (induction cs arbitrary: q)
  case Nil
  then show ?case by (simp add: objective_markers_def)
next
  case (Cons c cs)
  from Cons.prems obtain t where t: "body c q = Inr t" and r: "for_each body cs t = Inr q'"
    by (auto split: sum.splits)
  note ih = Cons.IH [OF r]
  show ?case
  proof (cases "c_value c = Objective")
    case True
    from A [OF t True] have "objective_coefficients q = []" "objective_coefficients t \<noteq> []"
      by auto
    with ih True show ?thesis by (simp add: objective_markers_def)
  next
    case False
    from B [OF t False] have "objective_coefficients t = objective_coefficients q" .
    with ih False show ?thesis by (simp add: objective_markers_def)
  qed
qed

lemma fold_include_flags_fields:
  "objective_coefficients (fold include_flags vs q) = objective_coefficients q
   \<and> maximize_objective (fold include_flags vs q) = maximize_objective q
   \<and> eq_constraints (fold include_flags vs q) = eq_constraints q
   \<and> ge_constraints (fold include_flags vs q) = ge_constraints q
   \<and> le_constraints (fold include_flags vs q) = le_constraints q"
  by (induction vs arbitrary: q) (simp_all add: include_flags_def Let_def)

lemma parse_include_objective:
  "parse_include lib d t q = Inr q' \<Longrightarrow>
     objective_coefficients q' = objective_coefficients q
     \<and> maximize_objective q' = maximize_objective q"
  by (auto simp: parse_include_def fold_include_flags_fields split: sum.splits)

lemma parse_exclude_objective:
  "parse_exclude lib d x q = Inr q' \<Longrightarrow>
     objective_coefficients q' = objective_coefficients q
     \<and> maximize_objective q' = maximize_objective q"
  by (cases "x = ExcludeByproducts") (auto simp: parse_exclude_def Let_def split: sum.splits)

lemma parse_includes_objective:
  assumes "parse_includes lib d ts q = Inr q'"
  shows "objective_coefficients q' = objective_coefficients q
     \<and> maximize_objective q' = maximize_objective q"
proof (rule for_each_preserves [where P = "\<lambda>t. objective_coefficients t = objective_coefficients q
     \<and> maximize_objective t = maximize_objective q"])
  show "for_each (parse_include lib d) ts q = Inr q'"
    using assms by (simp add: parse_includes_def)
qed (auto dest: parse_include_objective)

lemma parse_excludes_objective:
  assumes "parse_excludes lib d xs q = Inr q'"
  shows "objective_coefficients q' = objective_coefficients q
     \<and> maximize_objective q' = maximize_objective q"
proof (rule for_each_preserves [where P = "\<lambda>t. objective_coefficients t = objective_coefficients q
     \<and> maximize_objective t = maximize_objective q"])
  show "for_each (parse_exclude lib d) xs q = Inr q'"
    using assms by (simp add: parse_excludes_def)
qed (auto dest: parse_exclude_objective)

lemma objective_markers_append:
  "objective_markers (xs @ ys) = objective_markers xs + objective_markers ys"
  by (simp add: objective_markers_def)

lemma objective_markers_zero:
  "objective_markers cs = 0 \<longleftrightarrow> (\<forall>c\<in>set cs. c_value c \<noteq> Objective)"
  by (auto simp: objective_markers_def filter_empty_conv)

lemma for_each_append:
  "for_each body (xs @ ys) s =
     (case for_each body xs s of Inl err \<Rightarrow> Inl err | Inr t \<Rightarrow> for_each body ys t)"
  by (induction xs arbitrary: s) (auto split: sum.splits)

lemma for_each_error:
  assumes "for_each body xs s = Inl err"
    and "\<And>x t e. x \<in> set xs \<Longrightarrow> body x t = Inl e \<Longrightarrow> e = E"
  shows "err = E"
  using assms
proof (induction xs arbitrary: s)
  case Nil
  then show ?case by simp
next
  case (Cons x xs)
  show ?case
  proof (cases "body x s")
    case (Inl e)
    with Cons.prems show ?thesis by auto
  next
    case (Inr t)
    with Cons.prems(1) have r: "for_each body xs t = Inl err" by simp
    show ?thesis
    proof (rule Cons.IH [OF r])
      show "\<And>y u e. y \<in> set xs \<Longrightarrow> body y u = Inl e \<Longrightarrow> e = E"
        using Cons.prems(2) by auto
    qed
  qed
qed

text \<open>
  C2.  A compiled optimization query with no input clause and no \<^verbatim>\<open>?\<close> marker minimizes:
  \<open>maximize_objective\<close> is false and the objective is the single entry
  \<^verbatim>\<open>unweighted-resources\<close> with coefficient \<open>-1\<close>.
\<close>

theorem default_objective_without_inputs:
  assumes "parse_optimization_query lib d raw mx outputs [] includes excludes = Inr q"
    and "\<forall>c\<in>set outputs. c_value c \<noteq> Objective"
  shows "maximize_objective q = False
       \<and> objective_coefficients q = [(''unweighted-resources'', - 1)]"
proof -
  from assms(1) obtain q1 q2 q3 where
      "parse_outputs lib d outputs (OptimizationQuery raw mx) = Inr q1"
    and i: "parse_inputs lib d [] q1 = Inr q2"
    and n: "parse_includes lib d includes q2 = Inr q3"
    and x: "parse_excludes lib d excludes q3 = Inr q"
    by (auto simp: parse_optimization_query_def split: sum.splits)
  from i have "maximize_objective q2 = False
       \<and> objective_coefficients q2 = [(''unweighted-resources'', - 1)]"
    by (auto simp: parse_inputs_def)
  with parse_includes_objective [OF n] parse_excludes_objective [OF x] show ?thesis
    by simp
qed

theorem default_objective_without_inputs_witness:
  "parse_optimization_query fragment_library demo_db ''produce 60 iron rods'' True
       [\<lparr>strict = False, c_value = Num 60, c_target = Entity ''iron rods''\<rparr>] [] [] []
     = Inr ((OptimizationQuery ''produce 60 iron rods'' True)
             \<lparr>maximize_objective := False,
              objective_coefficients := [(''unweighted-resources'', - 1)],
              eq_constraints := [(''item:iron-rod'', 60)]\<rparr>)
   \<and> maximize_objective ((OptimizationQuery ''produce 60 iron rods'' True)
             \<lparr>maximize_objective := False,
              objective_coefficients := [(''unweighted-resources'', - 1)],
              eq_constraints := [(''item:iron-rod'', 60)]\<rparr>) = False"
proof -
  have c: "parse_optimization_query fragment_library demo_db ''produce 60 iron rods'' True
       [\<lparr>strict = False, c_value = Num 60, c_target = Entity ''iron rods''\<rparr>] [] [] []
     = Inr ((OptimizationQuery ''produce 60 iron rods'' True)
             \<lparr>maximize_objective := False,
              objective_coefficients := [(''unweighted-resources'', - 1)],
              eq_constraints := [(''item:iron-rod'', 60)]\<rparr>)"
    by code_simp
  have n: "\<forall>c\<in>set [\<lparr>strict = False, c_value = Num 60, c_target = Entity ''iron rods''\<rparr>].
             c_value c \<noteq> Objective"
    by simp
  from default_objective_without_inputs [OF c n] c show ?thesis by simp
qed

text \<open>
  C1.  The query \<^verbatim>\<open>produce ? iron rods\<close> has one \<^verbatim>\<open>?\<close> output clause and no input clause.
  After the output clauses the objective is to maximize \<^verbatim>\<open>item:iron-rod\<close> with coefficient
  1; the handler of the (absent) input clauses then replaces it, and the compiled query
  minimizes \<^verbatim>\<open>unweighted-resources\<close>.
\<close>

theorem objective_output_overridden:
  "map_sum id (\<lambda>q. (maximize_objective q, objective_coefficients q))
     (parse_outputs fragment_library demo_db
        [\<lparr>strict = False, c_value = Objective, c_target = Entity ''iron rods''\<rparr>]
        (OptimizationQuery ''produce ? iron rods'' True))
     = Inr (True, [(''item:iron-rod'', 1)])
   \<and> map_sum id (\<lambda>q. (maximize_objective q, objective_coefficients q))
     (parse_optimization_query fragment_library demo_db ''produce ? iron rods'' True
        [\<lparr>strict = False, c_value = Objective, c_target = Entity ''iron rods''\<rparr>] [] [] [])
     = Inr (False, [(''unweighted-resources'', - 1)])"
  by code_simp

text \<open>
  With at least one input clause the objective of the only \<^verbatim>\<open>?\<close> output clause is the
  objective of the compiled query.
\<close>

lemma output_objective_kept:
  assumes run: "parse_optimization_query lib d raw mx (xs @ c # ys) inputs includes excludes = Inr q"
    and c: "c_value c = Objective"
    and one: "objective_markers (xs @ ys) = 0"
    and inputs: "inputs \<noteq> []"
  shows "maximize_objective q = True
       \<and> (\<exists>vs. target_vars lib d [''item''] ''item'' (c_target c) = Inr vs
                \<and> objective_coefficients q = dict_comp vs 1)"
proof -
  from run obtain q1 q2 q3 where
      o: "parse_outputs lib d (xs @ c # ys) (OptimizationQuery raw mx) = Inr q1"
    and i: "parse_inputs lib d inputs q1 = Inr q2"
    and n: "parse_includes lib d includes q2 = Inr q3"
    and x: "parse_excludes lib d excludes q3 = Inr q"
    by (auto simp: parse_optimization_query_def split: sum.splits)
  from o obtain a b where
      a: "for_each (parse_output lib d) xs (OptimizationQuery raw mx) = Inr a"
    and b: "parse_output lib d c a = Inr b"
    and r: "for_each (parse_output lib d) ys b = Inr q1"
    by (auto simp: parse_outputs_def for_each_append split: sum.splits)
  from b c obtain vs where
      vs: "target_vars lib d [''item''] ''item'' (c_target c) = Inr vs"
    and bo: "objective_coefficients b = dict_comp vs 1" "maximize_objective b = True"
    by (auto simp: parse_output_def Let_def split: sum.splits if_splits)
  from one have ys: "\<forall>y\<in>set ys. c_value y \<noteq> Objective"
    by (simp add: objective_markers_append objective_markers_zero)
  have q1: "objective_coefficients q1 = dict_comp vs 1 \<and> maximize_objective q1 = True"
  proof (rule for_each_preserves [where P = "\<lambda>t. objective_coefficients t = dict_comp vs 1
       \<and> maximize_objective t = True", OF r])
    show "objective_coefficients b = dict_comp vs 1 \<and> maximize_objective b = True"
      using bo by simp
    show "\<And>y t t'. y \<in> set ys \<Longrightarrow> parse_output lib d y t = Inr t' \<Longrightarrow>
            objective_coefficients t = dict_comp vs 1 \<and> maximize_objective t = True \<Longrightarrow>
            objective_coefficients t' = dict_comp vs 1 \<and> maximize_objective t' = True"
      using ys by (auto dest: parse_output_other)
  qed
  from vs have "vs \<noteq> []" by (rule target_vars_nonempty)
  with q1 have ne: "objective_coefficients q1 \<noteq> []"
    by (simp add: dict_comp_nonempty)
  from i inputs have fi: "for_each (parse_input lib d) inputs q1 = Inr q2"
    by (simp add: parse_inputs_def)
  from for_each_markers [where body = "parse_input lib d", OF _ _ fi] ne
  have im: "objective_markers inputs = 0"
    by (auto dest: parse_input_objective parse_input_other)
  then have inp: "\<forall>y\<in>set inputs. c_value y \<noteq> Objective"
    by (simp add: objective_markers_zero)
  have q2: "objective_coefficients q2 = dict_comp vs 1 \<and> maximize_objective q2 = True"
  proof (rule for_each_preserves [where P = "\<lambda>t. objective_coefficients t = dict_comp vs 1
       \<and> maximize_objective t = True", OF fi])
    show "objective_coefficients q1 = dict_comp vs 1 \<and> maximize_objective q1 = True"
      by (rule q1)
    show "\<And>y t t'. y \<in> set inputs \<Longrightarrow> parse_input lib d y t = Inr t' \<Longrightarrow>
            objective_coefficients t = dict_comp vs 1 \<and> maximize_objective t = True \<Longrightarrow>
            objective_coefficients t' = dict_comp vs 1 \<and> maximize_objective t' = True"
      using inp by (auto dest: parse_input_other)
  qed
  with parse_includes_objective [OF n] parse_excludes_objective [OF x] vs show ?thesis
    by simp
qed

lemma compiled_markers:
  assumes "parse_optimization_query lib d raw mx outputs inputs includes excludes = Inr q"
  shows "objective_markers (outputs @ inputs) \<le> 1"
proof -
  from assms obtain q1 q2 where
      o: "parse_outputs lib d outputs (OptimizationQuery raw mx) = Inr q1"
    and i: "parse_inputs lib d inputs q1 = Inr q2"
    by (auto simp: parse_optimization_query_def split: sum.splits)
  from o have fo: "for_each (parse_output lib d) outputs (OptimizationQuery raw mx) = Inr q1"
    by (auto simp: parse_outputs_def split: if_splits)
  have "objective_coefficients (OptimizationQuery raw mx) = []"
    by (simp add: OptimizationQuery_def)
  with for_each_markers [where body = "parse_output lib d", OF _ _ fo]
  have om: "objective_markers outputs \<le> 1"
      "objective_markers outputs = 1 \<longleftrightarrow> objective_coefficients q1 \<noteq> []"
    by (auto dest: parse_output_objective parse_output_other)
  show ?thesis
  proof (cases "inputs = []")
    case True
    with om show ?thesis by (simp add: objective_markers_def)
  next
    case False
    with i have fi: "for_each (parse_input lib d) inputs q1 = Inr q2"
      by (simp add: parse_inputs_def)
    from for_each_markers [where body = "parse_input lib d", OF _ _ fi]
    have "(objective_coefficients q1 \<noteq> [] \<longrightarrow> objective_markers inputs = 0)
        \<and> (objective_coefficients q1 = [] \<longrightarrow> objective_markers inputs \<le> 1)"
      by (auto dest: parse_input_objective parse_input_other)
    with om show ?thesis
      by (cases "objective_coefficients q1 = []") (auto simp: objective_markers_append)
  qed
qed

lemma target_vars_resolvable:
  "resolvable lib d ts t \<Longrightarrow> \<exists>vs. target_vars lib d ts w t = Inr vs"
  by (auto simp: resolvable_def target_vars_def split: target.splits sum.splits)

lemma parse_output_error:
  "resolvable lib d [''item''] (c_target c) \<Longrightarrow> parse_output lib d c q = Inl err \<Longrightarrow>
     err = QueryParseException ''Only one objective may be specified.''"
  by (cases "c_value c")
     (auto simp: parse_output_def Let_def dest!: target_vars_resolvable [where w = "''item''"]
       split: sum.splits if_splits)

lemma parse_input_error:
  "resolvable lib d [''resource'', ''item''] (c_target c) \<Longrightarrow> parse_input lib d c q = Inl err \<Longrightarrow>
     err = QueryParseException ''Only one objective may be specified.''"
  by (cases "c_value c")
     (auto simp: parse_input_def Let_def
       dest!: target_vars_resolvable [where w = "''resource or item''"]
       split: sum.splits if_splits)

text \<open>
  C3, amended.  A query with two or more \<^verbatim>\<open>?\<close> markers among its output and input clauses
  never compiles.  When there is an output clause and every entity expression of the output
  and input clauses resolves, the error is \<^verbatim>\<open>Only one objective may be specified.\<close>
\<close>

theorem two_objectives_rejected:
  assumes "2 \<le> objective_markers (outputs @ inputs)"
  shows "(\<exists>err. parse_optimization_query lib d raw mx outputs inputs includes excludes = Inl err)
       \<and> (outputs \<noteq> []
            \<and> (\<forall>c\<in>set outputs. resolvable lib d [''item''] (c_target c))
            \<and> (\<forall>c\<in>set inputs. resolvable lib d [''resource'', ''item''] (c_target c)) \<longrightarrow>
          parse_optimization_query lib d raw mx outputs inputs includes excludes
            = Inl (QueryParseException ''Only one objective may be specified.''))"
proof (intro conjI impI)
  show fails: "\<exists>err. parse_optimization_query lib d raw mx outputs inputs includes excludes = Inl err"
  proof (cases "parse_optimization_query lib d raw mx outputs inputs includes excludes")
    case (Inl err)
    then show ?thesis by blast
  next
    case (Inr q)
    from compiled_markers [OF Inr] assms show ?thesis by simp
  qed
  assume res: "outputs \<noteq> []
            \<and> (\<forall>c\<in>set outputs. resolvable lib d [''item''] (c_target c))
            \<and> (\<forall>c\<in>set inputs. resolvable lib d [''resource'', ''item''] (c_target c))"
  let ?E = "QueryParseException ''Only one objective may be specified.''"
  show "parse_optimization_query lib d raw mx outputs inputs includes excludes = Inl ?E"
  proof (cases "parse_outputs lib d outputs (OptimizationQuery raw mx)")
    case (Inl err)
    with res have "for_each (parse_output lib d) outputs (OptimizationQuery raw mx) = Inl err"
      by (simp add: parse_outputs_def)
    then have "err = ?E"
      by (rule for_each_error) (use res in \<open>auto dest: parse_output_error\<close>)
    with Inl show ?thesis by (simp add: parse_optimization_query_def)
  next
    case (Inr q1)
    note o = Inr
    show ?thesis
    proof (cases "parse_inputs lib d inputs q1")
      case (Inl err)
      then have "inputs \<noteq> []" by (auto simp: parse_inputs_def)
      with Inl have "for_each (parse_input lib d) inputs q1 = Inl err"
        by (simp add: parse_inputs_def)
      then have "err = ?E"
        by (rule for_each_error) (use res in \<open>auto dest: parse_input_error\<close>)
      with Inl o show ?thesis by (simp add: parse_optimization_query_def)
    next
      case (Inr q2)
      let ?ok = "parse_optimization_query lib d raw mx outputs inputs [] []"
      from o Inr have "?ok = Inr q2"
        by (simp add: parse_optimization_query_def parse_includes_def parse_excludes_def)
      from compiled_markers [OF this] assms show ?thesis by simp
    qed
  qed
qed

theorem two_objectives_rejected_witness:
  "2 \<le> objective_markers
          ([\<lparr>strict = False, c_value = Objective, c_target = Entity ''iron rods''\<rparr>]
           @ [\<lparr>strict = False, c_value = Objective, c_target = Entity ''iron ore''\<rparr>])
   \<and> parse_optimization_query fragment_library demo_db ''produce ? iron rods from ? iron ore'' True
       [\<lparr>strict = False, c_value = Objective, c_target = Entity ''iron rods''\<rparr>]
       [\<lparr>strict = False, c_value = Objective, c_target = Entity ''iron ore''\<rparr>] [] []
     = Inl (QueryParseException ''Only one objective may be specified.'')"
proof -
  have m: "2 \<le> objective_markers
          ([\<lparr>strict = False, c_value = Objective, c_target = Entity ''iron rods''\<rparr>]
           @ [\<lparr>strict = False, c_value = Objective, c_target = Entity ''iron ore''\<rparr>])"
    by (simp add: objective_markers_def)
  have r: "[\<lparr>strict = False, c_value = Objective, c_target = Entity ''iron rods''\<rparr>] \<noteq> []
     \<and> (\<forall>c\<in>set [\<lparr>strict = False, c_value = Objective, c_target = Entity ''iron rods''\<rparr>].
           resolvable fragment_library demo_db [''item''] (c_target c))
     \<and> (\<forall>c\<in>set [\<lparr>strict = False, c_value = Objective, c_target = Entity ''iron ore''\<rparr>].
           resolvable fragment_library demo_db [''resource'', ''item''] (c_target c))"
    by code_simp
  from two_objectives_rejected [OF m, of fragment_library demo_db
      "''produce ? iron rods from ? iron ore''" True "[]" "[]"] r m
  show ?thesis by blast
qed

text \<open>
  C3 as stated fails: in \<^verbatim>\<open>produce ? iron rods from ? unobtainium\<close> the second marker sits
  on an expression without a match, and the error is the one of the resolution.
\<close>

theorem two_objectives_counterexample:
  "objective_markers
     ([\<lparr>strict = False, c_value = Objective, c_target = Entity ''iron rods''\<rparr>]
      @ [\<lparr>strict = False, c_value = Objective, c_target = Entity ''unobtainium''\<rparr>]) = 2
   \<and> parse_optimization_query fragment_library demo_db ''produce ? iron rods from ? unobtainium''
       True
       [\<lparr>strict = False, c_value = Objective, c_target = Entity ''iron rods''\<rparr>]
       [\<lparr>strict = False, c_value = Objective, c_target = Entity ''unobtainium''\<rparr>] [] []
     = Inl (QueryParseException
             (''Could not parse resource or item expression '' @ [CHR 0x27] @ ''unobtainium''
              @ [CHR 0x27] @ ''.''))
   \<and> QueryParseException
        (''Could not parse resource or item expression '' @ [CHR 0x27] @ ''unobtainium''
         @ [CHR 0x27] @ ''.'')
     \<noteq> QueryParseException ''Only one objective may be specified.''"
  by code_simp



section \<open>The constraint maps of an optimization query\<close>

lemma parse_output_distinct:
  "parse_output lib d c q = Inr q' \<Longrightarrow> distinct_keys q \<Longrightarrow> distinct_keys q'"
  by (cases "c_value c")
     (auto simp: parse_output_def Let_def distinct_keys_def distinct_dict_update
       split: sum.splits if_splits)

lemma parse_input_distinct:
  "parse_input lib d c q = Inr q' \<Longrightarrow> distinct_keys q \<Longrightarrow> distinct_keys q'"
  by (cases "c_value c")
     (auto simp: parse_input_def Let_def distinct_keys_def distinct_dict_update
       split: sum.splits if_splits)

lemma parse_include_distinct:
  "parse_include lib d t q = Inr q' \<Longrightarrow> distinct_keys q \<Longrightarrow> distinct_keys q'"
  by (auto simp: parse_include_def distinct_keys_def fold_include_flags_fields
       distinct_dict_update split: sum.splits)

lemma parse_exclude_distinct:
  "parse_exclude lib d x q = Inr q' \<Longrightarrow> distinct_keys q \<Longrightarrow> distinct_keys q'"
  by (cases "x = ExcludeByproducts")
     (auto simp: parse_exclude_def Let_def distinct_keys_def distinct_dict_update
       split: sum.splits)

lemma parse_exclude_ge:
  "parse_exclude lib d x q = Inr q' \<Longrightarrow> ge_constraints q' = ge_constraints q"
  by (cases "x = ExcludeByproducts") (auto simp: parse_exclude_def Let_def split: sum.splits)

lemma parse_exclude_writes:
  "parse_exclude lib d x q = Inr q' \<Longrightarrow>
     \<exists>vs. exclude_vars lib d x = Inr vs
        \<and> (\<forall>k. map_of (eq_constraints q') k
                 = (if k \<in> set vs then Some 0 else map_of (eq_constraints q) k))"
  by (cases "x = ExcludeByproducts")
     (auto simp: parse_exclude_def Let_def map_of_dict_update_comp split: sum.splits)

lemma parse_include_writes:
  "parse_include lib d t q = Inr q' \<Longrightarrow>
     \<exists>vs. target_vars lib d building_types building_what t = Inr vs
        \<and> (\<forall>k. map_of (ge_constraints q') k
                 = (if k \<in> set vs then Some 0 else map_of (ge_constraints q) k))"
  by (auto simp: parse_include_def fold_include_flags_fields map_of_dict_update_comp
       split: sum.splits)

lemma excluded_vars_zero:
  assumes run: "parse_excludes lib d excludes q = Inr q'"
    and x: "x \<in> set excludes" and vs: "exclude_vars lib d x = Inr vs" and v: "v \<in> set vs"
  shows "map_of (eq_constraints q') v = Some 0"
proof (rule for_each_establishes [where Q = "\<lambda>t. map_of (eq_constraints t) v = Some 0"
      and body = "parse_exclude lib d" and x = x and xs = "excludes" and s = q])
  show "for_each (parse_exclude lib d) excludes q = Inr q'"
    using run by (simp add: parse_excludes_def)
  show "x \<in> set excludes" by (rule x)
  show "\<And>t t'. parse_exclude lib d x t = Inr t' \<Longrightarrow> map_of (eq_constraints t') v = Some 0"
    using vs v by (auto dest!: parse_exclude_writes)
  show "\<And>y t t'. y \<in> set excludes \<Longrightarrow> parse_exclude lib d y t = Inr t' \<Longrightarrow>
          map_of (eq_constraints t) v = Some 0 \<Longrightarrow> map_of (eq_constraints t') v = Some 0"
    by (auto dest!: parse_exclude_writes)
qed

lemma included_vars_zero:
  assumes run: "parse_includes lib d includes q = Inr q'"
    and t: "t \<in> set includes"
    and vs: "target_vars lib d building_types building_what t = Inr vs" and v: "v \<in> set vs"
  shows "map_of (ge_constraints q') v = Some 0"
proof (rule for_each_establishes [where Q = "\<lambda>s. map_of (ge_constraints s) v = Some 0"
      and body = "parse_include lib d" and x = t and xs = "includes" and s = q])
  show "for_each (parse_include lib d) includes q = Inr q'"
    using run by (simp add: parse_includes_def)
  show "t \<in> set includes" by (rule t)
  show "\<And>s s'. parse_include lib d t s = Inr s' \<Longrightarrow> map_of (ge_constraints s') v = Some 0"
    using vs v by (auto dest!: parse_include_writes)
  show "\<And>y s s'. y \<in> set includes \<Longrightarrow> parse_include lib d y s = Inr s' \<Longrightarrow>
          map_of (ge_constraints s) v = Some 0 \<Longrightarrow> map_of (ge_constraints s') v = Some 0"
    by (auto dest!: parse_include_writes)
qed

lemma compiled_distinct_keys:
  assumes "parse_optimization_query lib d raw mx outputs inputs includes excludes = Inr q"
  shows "distinct_keys q"
proof -
  from assms obtain q1 q2 q3 where
      o: "parse_outputs lib d outputs (OptimizationQuery raw mx) = Inr q1"
    and i: "parse_inputs lib d inputs q1 = Inr q2"
    and n: "parse_includes lib d includes q2 = Inr q3"
    and x: "parse_excludes lib d excludes q3 = Inr q"
    by (auto simp: parse_optimization_query_def split: sum.splits)
  have d0: "distinct_keys (OptimizationQuery raw mx)"
    by (simp add: distinct_keys_def OptimizationQuery_def)
  from o have "for_each (parse_output lib d) outputs (OptimizationQuery raw mx) = Inr q1"
    by (auto simp: parse_outputs_def split: if_splits)
  then have d1: "distinct_keys q1"
    by (rule for_each_preserves [where P = distinct_keys]) (auto simp: d0 dest: parse_output_distinct)
  have d2: "distinct_keys q2"
  proof (cases "inputs = []")
    case True
    with i d1 show ?thesis by (auto simp: parse_inputs_def distinct_keys_def)
  next
    case False
    with i have "for_each (parse_input lib d) inputs q1 = Inr q2"
      by (simp add: parse_inputs_def)
    then show ?thesis
      by (rule for_each_preserves [where P = distinct_keys]) (auto simp: d1 dest: parse_input_distinct)
  qed
  from n have "for_each (parse_include lib d) includes q2 = Inr q3"
    by (simp add: parse_includes_def)
  then have d3: "distinct_keys q3"
    by (rule for_each_preserves [where P = distinct_keys]) (auto simp: d2 dest: parse_include_distinct)
  from x have "for_each (parse_exclude lib d) excludes q3 = Inr q"
    by (simp add: parse_excludes_def)
  then show ?thesis
    by (rule for_each_preserves [where P = distinct_keys]) (auto simp: d3 dest: parse_exclude_distinct)
qed

lemma last_write_bounds: "last_write (bounds vs x) k = (if k \<in> set vs then Some x else None)"
  unfolding last_write_def bounds_def
  by (induction vs) (auto simp: map_add_def split: option.splits)

lemma last_write_append:
  "last_write (ws @ ws') k = (case last_write ws' k of None \<Rightarrow> last_write ws k | Some y \<Rightarrow> Some y)"
  by (simp add: last_write_def map_add_def split: option.splits)

lemma last_write_Nil: "last_write [] k = None"
  by (simp add: last_write_def)

lemma writes_to_bounds:
  "field q' = dict_update (field q) (dict_comp vs x) \<Longrightarrow> writes_to field q (bounds vs x) q'"
  by (simp add: writes_to_def last_write_bounds map_of_dict_update_comp)

lemma writes_to_none: "field q' = field q \<Longrightarrow> writes_to field q [] q'"
  by (simp add: writes_to_def last_write_Nil)

lemma writes_to_trans:
  "writes_to field q ws q' \<Longrightarrow> writes_to field q' ws' q'' \<Longrightarrow> writes_to field q (ws @ ws') q''"
  by (auto simp: writes_to_def last_write_append split: option.splits)

lemma for_each_writes:
  assumes "for_each body xs s = Inr s'"
    and "\<And>x t t'. body x t = Inr t' \<Longrightarrow> writes_to field t (w x) t'"
  shows "writes_to field s (concat (map w xs)) s'"
  using assms(1)
proof (induction xs arbitrary: s)
  case Nil
  then show ?case by (simp add: writes_to_none)
next
  case (Cons x xs)
  from Cons.prems obtain t where t: "body x s = Inr t" and r: "for_each body xs t = Inr s'"
    by (auto split: sum.splits)
  from writes_to_trans [OF assms(2) [OF t] Cons.IH [OF r]] show ?case by simp
qed

lemma parse_output_eq_writes:
  "parse_output lib d c q = Inr q' \<Longrightarrow> writes_to eq_constraints q (output_eq_writes lib d c) q'"
  by (cases "c_value c")
     (auto simp: parse_output_def Let_def output_eq_writes_def clause_vars_def
       intro!: writes_to_bounds writes_to_none split: sum.splits if_splits)

lemma parse_output_ge_writes:
  "parse_output lib d c q = Inr q' \<Longrightarrow> writes_to ge_constraints q (output_ge_writes lib d c) q'"
  by (cases "c_value c")
     (auto simp: parse_output_def Let_def output_ge_writes_def clause_vars_def
       intro!: writes_to_bounds writes_to_none split: sum.splits if_splits)

lemma parse_output_le_writes:
  "parse_output lib d c q = Inr q' \<Longrightarrow> writes_to le_constraints q [] q'"
  by (cases "c_value c")
     (auto simp: parse_output_def Let_def
       intro!: writes_to_none split: sum.splits if_splits)

lemma parse_input_eq_writes:
  "parse_input lib d c q = Inr q' \<Longrightarrow> writes_to eq_constraints q [] q'"
  by (cases "c_value c")
     (auto simp: parse_input_def Let_def
       intro!: writes_to_none split: sum.splits if_splits)

lemma parse_input_ge_writes:
  "parse_input lib d c q = Inr q' \<Longrightarrow> writes_to ge_constraints q (input_ge_writes lib d c) q'"
  by (cases "c_value c")
     (auto simp: parse_input_def Let_def input_ge_writes_def clause_vars_def
       intro!: writes_to_bounds writes_to_none split: sum.splits if_splits)

lemma parse_input_le_writes:
  "parse_input lib d c q = Inr q' \<Longrightarrow> writes_to le_constraints q (input_le_writes lib d c) q'"
  by (cases "c_value c")
     (auto simp: parse_input_def Let_def input_le_writes_def clause_vars_def
       intro!: writes_to_bounds writes_to_none split: sum.splits if_splits)

lemma parse_include_eq_writes:
  "parse_include lib d t q = Inr q' \<Longrightarrow> writes_to eq_constraints q [] q'"
  by (auto simp: parse_include_def fold_include_flags_fields
       intro!: writes_to_none split: sum.splits)

lemma parse_include_ge_writes:
  "parse_include lib d t q = Inr q' \<Longrightarrow> writes_to ge_constraints q (include_ge_writes lib d t) q'"
  by (auto simp: parse_include_def fold_include_flags_fields include_ge_writes_def clause_vars_def
       intro!: writes_to_bounds split: sum.splits)

lemma parse_include_le_writes:
  "parse_include lib d t q = Inr q' \<Longrightarrow> writes_to le_constraints q [] q'"
  by (auto simp: parse_include_def fold_include_flags_fields
       intro!: writes_to_none split: sum.splits)

lemma parse_exclude_eq_writes:
  "parse_exclude lib d x q = Inr q' \<Longrightarrow> writes_to eq_constraints q (exclude_eq_writes lib d x) q'"
  by (cases "x = ExcludeByproducts")
     (auto simp: parse_exclude_def Let_def exclude_eq_writes_def excluded_vars_def
       intro!: writes_to_bounds split: sum.splits)

lemma parse_exclude_ge_writes:
  "parse_exclude lib d x q = Inr q' \<Longrightarrow> writes_to ge_constraints q [] q'"
  by (cases "x = ExcludeByproducts")
     (auto simp: parse_exclude_def Let_def intro!: writes_to_none split: sum.splits)

lemma parse_exclude_le_writes:
  "parse_exclude lib d x q = Inr q' \<Longrightarrow> writes_to le_constraints q [] q'"
  by (cases "x = ExcludeByproducts")
     (auto simp: parse_exclude_def Let_def intro!: writes_to_none split: sum.splits)

lemma concat_map_Nil: "concat (map (\<lambda>x. []) xs) = []"
  by (induction xs) auto

lemma parse_inputs_writes:
  assumes "parse_inputs lib d inputs q = Inr q'"
  shows "writes_to eq_constraints q [] q'"
    and "writes_to ge_constraints q (concat (map (input_ge_writes lib d) inputs)) q'"
    and "writes_to le_constraints q (concat (map (input_le_writes lib d) inputs)) q'"
proof -
  show "writes_to eq_constraints q [] q'"
  proof (cases "inputs = []")
    case True
    with assms show ?thesis by (auto simp: parse_inputs_def intro!: writes_to_none)
  next
    case False
    with assms have "for_each (parse_input lib d) inputs q = Inr q'"
      by (simp add: parse_inputs_def)
    from for_each_writes [OF this, of eq_constraints "\<lambda>c. []"] show ?thesis
      by (simp add: parse_input_eq_writes concat_map_Nil)
  qed
  show "writes_to ge_constraints q (concat (map (input_ge_writes lib d) inputs)) q'"
  proof (cases "inputs = []")
    case True
    with assms show ?thesis by (auto simp: parse_inputs_def intro!: writes_to_none)
  next
    case False
    with assms have "for_each (parse_input lib d) inputs q = Inr q'"
      by (simp add: parse_inputs_def)
    from for_each_writes [OF this, of ge_constraints "input_ge_writes lib d"] show ?thesis
      by (simp add: parse_input_ge_writes)
  qed
  show "writes_to le_constraints q (concat (map (input_le_writes lib d) inputs)) q'"
  proof (cases "inputs = []")
    case True
    with assms show ?thesis by (auto simp: parse_inputs_def intro!: writes_to_none)
  next
    case False
    with assms have "for_each (parse_input lib d) inputs q = Inr q'"
      by (simp add: parse_inputs_def)
    from for_each_writes [OF this, of le_constraints "input_le_writes lib d"] show ?thesis
      by (simp add: parse_input_le_writes)
  qed
qed

lemma writes_to_fresh:
  "field q = [] \<Longrightarrow> writes_to field q ws q' \<Longrightarrow> map_of (field q') = last_write ws"
  by (rule ext) (auto simp: writes_to_def split: option.splits)

lemma compiled_writes:
  assumes "parse_optimization_query lib d raw mx outputs inputs includes excludes = Inr q"
  shows "map_of (eq_constraints q) = last_write (eq_writes lib d outputs excludes)"
    and "map_of (ge_constraints q) = last_write (ge_writes lib d outputs inputs includes)"
    and "map_of (le_constraints q) = last_write (le_writes lib d inputs)"
proof -
  let ?q0 = "OptimizationQuery raw mx"
  from assms obtain q1 q2 q3 where
      o: "parse_outputs lib d outputs ?q0 = Inr q1"
    and i: "parse_inputs lib d inputs q1 = Inr q2"
    and n: "parse_includes lib d includes q2 = Inr q3"
    and x: "parse_excludes lib d excludes q3 = Inr q"
    by (auto simp: parse_optimization_query_def split: sum.splits)
  from o have fo: "for_each (parse_output lib d) outputs ?q0 = Inr q1"
    by (auto simp: parse_outputs_def split: if_splits)
  from n have fn: "for_each (parse_include lib d) includes q2 = Inr q3"
    by (simp add: parse_includes_def)
  from x have fx: "for_each (parse_exclude lib d) excludes q3 = Inr q"
    by (simp add: parse_excludes_def)
  have e1: "writes_to eq_constraints ?q0 (concat (map (output_eq_writes lib d) outputs)) q1"
    by (rule for_each_writes [OF fo]) (rule parse_output_eq_writes)
  have e3: "writes_to eq_constraints q2 [] q3"
    using for_each_writes [OF fn, of eq_constraints "\<lambda>t. []"]
    by (simp add: parse_include_eq_writes concat_map_Nil)
  have e4: "writes_to eq_constraints q3 (concat (map (exclude_eq_writes lib d) excludes)) q"
    by (rule for_each_writes [OF fx]) (rule parse_exclude_eq_writes)
  from writes_to_trans [OF writes_to_trans [OF writes_to_trans [OF e1 parse_inputs_writes(1) [OF i]] e3] e4]
  have "writes_to eq_constraints ?q0 (eq_writes lib d outputs excludes) q"
    by (simp add: eq_writes_def)
  then show "map_of (eq_constraints q) = last_write (eq_writes lib d outputs excludes)"
    by (rule writes_to_fresh [rotated]) (simp add: OptimizationQuery_def)
  have g1: "writes_to ge_constraints ?q0 (concat (map (output_ge_writes lib d) outputs)) q1"
    by (rule for_each_writes [OF fo]) (rule parse_output_ge_writes)
  have g3: "writes_to ge_constraints q2 (concat (map (include_ge_writes lib d) includes)) q3"
    by (rule for_each_writes [OF fn]) (rule parse_include_ge_writes)
  have g4: "writes_to ge_constraints q3 [] q"
    using for_each_writes [OF fx, of ge_constraints "\<lambda>t. []"]
    by (simp add: parse_exclude_ge_writes concat_map_Nil)
  from writes_to_trans [OF writes_to_trans [OF writes_to_trans [OF g1 parse_inputs_writes(2) [OF i]] g3] g4]
  have "writes_to ge_constraints ?q0 (ge_writes lib d outputs inputs includes) q"
    by (simp add: ge_writes_def)
  then show "map_of (ge_constraints q) = last_write (ge_writes lib d outputs inputs includes)"
    by (rule writes_to_fresh [rotated]) (simp add: OptimizationQuery_def)
  have l1: "writes_to le_constraints ?q0 [] q1"
    using for_each_writes [OF fo, of le_constraints "\<lambda>t. []"]
    by (simp add: parse_output_le_writes concat_map_Nil)
  have l3: "writes_to le_constraints q2 [] q3"
    using for_each_writes [OF fn, of le_constraints "\<lambda>t. []"]
    by (simp add: parse_include_le_writes concat_map_Nil)
  have l4: "writes_to le_constraints q3 [] q"
    using for_each_writes [OF fx, of le_constraints "\<lambda>t. []"]
    by (simp add: parse_exclude_le_writes concat_map_Nil)
  from writes_to_trans [OF writes_to_trans [OF writes_to_trans [OF l1 parse_inputs_writes(3) [OF i]] l3] l4]
  have "writes_to le_constraints ?q0 (le_writes lib d inputs) q"
    by (simp add: le_writes_def)
  then show "map_of (le_constraints q) = last_write (le_writes lib d inputs)"
    by (rule writes_to_fresh [rotated]) (simp add: OptimizationQuery_def)
qed

text \<open>
  C4, amended.  The handlers run in the order outputs, inputs, includes, excludes: a compiled
  query is the result of the exclude handler on the result of the include handler on the
  result of the input handler on the result of the output handler on a fresh query, and an
  include clause that raises ends the compilation before an exclude clause is read.  Inside
  one constraint map the last write wins: each of the three maps of a compiled query gives a
  var the bound of the last clause, in that order, that wrote the var to this map, and no
  bound to a var that no clause wrote there.  So every var of an exclude clause has the
  bound 0 in \<open>eq_constraints\<close> and every var of an include clause has the bound 0 in
  \<open>ge_constraints\<close>, whatever earlier clauses wrote there, and each map holds one bound for
  a var at most.
\<close>

theorem last_write_wins_per_map:
  "(parse_optimization_query lib d raw mx outputs inputs includes excludes = Inr q \<longrightarrow>
      (\<exists>q1 q2 q3.
          parse_outputs lib d outputs (OptimizationQuery raw mx) = Inr q1
        \<and> parse_inputs lib d inputs q1 = Inr q2
        \<and> parse_includes lib d includes q2 = Inr q3
        \<and> parse_excludes lib d excludes q3 = Inr q)
    \<and> map_of (eq_constraints q) = last_write (eq_writes lib d outputs excludes)
    \<and> map_of (ge_constraints q) = last_write (ge_writes lib d outputs inputs includes)
    \<and> map_of (le_constraints q) = last_write (le_writes lib d inputs)
    \<and> (\<forall>x\<in>set excludes. \<forall>vs. exclude_vars lib d x = Inr vs \<longrightarrow>
          (\<forall>v\<in>set vs. map_of (eq_constraints q) v = Some 0))
    \<and> (\<forall>t\<in>set includes. \<forall>vs. target_vars lib d building_types building_what t = Inr vs \<longrightarrow>
          (\<forall>v\<in>set vs. map_of (ge_constraints q) v = Some 0))
    \<and> distinct (map fst (eq_constraints q))
    \<and> distinct (map fst (ge_constraints q))
    \<and> distinct (map fst (le_constraints q)))
   \<and> (parse_outputs lib d outputs (OptimizationQuery raw mx) = Inr p1
        \<and> parse_inputs lib d inputs p1 = Inr p2
        \<and> parse_includes lib d includes p2 = Inl err \<longrightarrow>
      parse_optimization_query lib d raw mx outputs inputs includes excludes = Inl err)"
proof (intro conjI impI)
  assume c: "parse_optimization_query lib d raw mx outputs inputs includes excludes = Inr q"
  then obtain q1 q2 q3 where
      o: "parse_outputs lib d outputs (OptimizationQuery raw mx) = Inr q1"
    and i: "parse_inputs lib d inputs q1 = Inr q2"
    and n: "parse_includes lib d includes q2 = Inr q3"
    and x: "parse_excludes lib d excludes q3 = Inr q"
    by (auto simp: parse_optimization_query_def split: sum.splits)
  then show "\<exists>q1 q2 q3.
          parse_outputs lib d outputs (OptimizationQuery raw mx) = Inr q1
        \<and> parse_inputs lib d inputs q1 = Inr q2
        \<and> parse_includes lib d includes q2 = Inr q3
        \<and> parse_excludes lib d excludes q3 = Inr q"
    by blast
  show "map_of (eq_constraints q) = last_write (eq_writes lib d outputs excludes)"
    by (rule compiled_writes(1) [OF c])
  show "map_of (ge_constraints q) = last_write (ge_writes lib d outputs inputs includes)"
    by (rule compiled_writes(2) [OF c])
  show "map_of (le_constraints q) = last_write (le_writes lib d inputs)"
    by (rule compiled_writes(3) [OF c])
  show "\<forall>x\<in>set excludes. \<forall>vs. exclude_vars lib d x = Inr vs \<longrightarrow>
          (\<forall>v\<in>set vs. map_of (eq_constraints q) v = Some 0)"
    using excluded_vars_zero [OF x] by blast
  from x have "for_each (parse_exclude lib d) excludes q3 = Inr q"
    by (simp add: parse_excludes_def)
  then have ge: "ge_constraints q = ge_constraints q3"
    by (rule for_each_preserves [where P = "\<lambda>t. ge_constraints t = ge_constraints q3"])
       (auto dest: parse_exclude_ge)
  show "\<forall>t\<in>set includes. \<forall>vs. target_vars lib d building_types building_what t = Inr vs \<longrightarrow>
          (\<forall>v\<in>set vs. map_of (ge_constraints q) v = Some 0)"
    unfolding ge using included_vars_zero [OF n] by blast
  from compiled_distinct_keys [OF c]
  show "distinct (map fst (eq_constraints q))" and "distinct (map fst (ge_constraints q))"
    and "distinct (map fst (le_constraints q))"
    by (simp_all add: distinct_keys_def)
next
  assume "parse_outputs lib d outputs (OptimizationQuery raw mx) = Inr p1
        \<and> parse_inputs lib d inputs p1 = Inr p2
        \<and> parse_includes lib d includes p2 = Inl err"
  then show "parse_optimization_query lib d raw mx outputs inputs includes excludes = Inl err"
    by (simp add: parse_optimization_query_def)
qed

theorem last_write_wins_per_map_witness:
  "parse_optimization_query fragment_library demo_db
       ''produce 60 iron rods and 30 iron rod and any iron ingot from 5 iron ore and 99 iron ore and 7 iron ingot using iron rod without iron rod''
       True
       [\<lparr>strict = False, c_value = Num 60, c_target = Entity ''iron rods''\<rparr>,
        \<lparr>strict = False, c_value = Num 30, c_target = Entity ''iron rod''\<rparr>,
        \<lparr>strict = False, c_value = AnyValue, c_target = Entity ''iron ingot''\<rparr>]
       [\<lparr>strict = False, c_value = Num 5, c_target = Entity ''iron ore''\<rparr>,
        \<lparr>strict = False, c_value = Num 99, c_target = Entity ''iron ore''\<rparr>,
        \<lparr>strict = False, c_value = Num 7, c_target = Entity ''iron ingot''\<rparr>]
       [Entity ''iron rod''] [ExcludeEntity ''iron rod'']
     = Inr ((OptimizationQuery
               ''produce 60 iron rods and 30 iron rod and any iron ingot from 5 iron ore and 99 iron ore and 7 iron ingot using iron rod without iron rod''
               True)
             \<lparr>eq_constraints := [(''item:iron-rod'', 30), (''recipe:iron-rod'', 0)],
              ge_constraints := [(''item:iron-ingot'', - 7), (''item:iron-ore'', - 99),
                                 (''recipe:iron-rod'', 0)],
              strict_recipes := True\<rparr>)
   \<and> eq_writes fragment_library demo_db
       [\<lparr>strict = False, c_value = Num 60, c_target = Entity ''iron rods''\<rparr>,
        \<lparr>strict = False, c_value = Num 30, c_target = Entity ''iron rod''\<rparr>,
        \<lparr>strict = False, c_value = AnyValue, c_target = Entity ''iron ingot''\<rparr>]
       [ExcludeEntity ''iron rod'']
     = [(''item:iron-rod'', 60), (''item:iron-rod'', 30), (''recipe:iron-rod'', 0)]
   \<and> ge_writes fragment_library demo_db
       [\<lparr>strict = False, c_value = Num 60, c_target = Entity ''iron rods''\<rparr>,
        \<lparr>strict = False, c_value = Num 30, c_target = Entity ''iron rod''\<rparr>,
        \<lparr>strict = False, c_value = AnyValue, c_target = Entity ''iron ingot''\<rparr>]
       [\<lparr>strict = False, c_value = Num 5, c_target = Entity ''iron ore''\<rparr>,
        \<lparr>strict = False, c_value = Num 99, c_target = Entity ''iron ore''\<rparr>,
        \<lparr>strict = False, c_value = Num 7, c_target = Entity ''iron ingot''\<rparr>]
       [Entity ''iron rod'']
     = [(''item:iron-ingot'', 0), (''item:iron-ore'', - 5), (''item:iron-ore'', - 99),
        (''item:iron-ingot'', - 7), (''recipe:iron-rod'', 0)]
   \<and> map_of [(''item:iron-rod'', 30), (''recipe:iron-rod'', 0 :: int)]
       = last_write [(''item:iron-rod'', 60), (''item:iron-rod'', 30), (''recipe:iron-rod'', 0)]
   \<and> map_of [(''item:iron-ingot'', - 7), (''item:iron-ore'', - 99), (''recipe:iron-rod'', 0 :: int)]
       = last_write [(''item:iron-ingot'', 0), (''item:iron-ore'', - 5), (''item:iron-ore'', - 99),
                     (''item:iron-ingot'', - 7), (''recipe:iron-rod'', 0)]
   \<and> last_write [(''item:iron-rod'', 60), (''item:iron-rod'', 30), (''recipe:iron-rod'', 0)]
        ''item:iron-rod'' = Some 30
   \<and> last_write [(''item:iron-ingot'', 0), (''item:iron-ore'', - 5), (''item:iron-ore'', - 99),
                  (''item:iron-ingot'', - 7), (''recipe:iron-rod'', 0)] ''item:iron-ore''
        = Some (- 99)
   \<and> last_write [(''item:iron-ingot'', 0), (''item:iron-ore'', - 5), (''item:iron-ore'', - 99),
                  (''item:iron-ingot'', - 7), (''recipe:iron-rod'', 0)] ''item:iron-ingot''
        = Some (- 7)"
proof -
  let ?raw = "''produce 60 iron rods and 30 iron rod and any iron ingot from 5 iron ore and 99 iron ore and 7 iron ingot using iron rod without iron rod''"
  let ?outs = "[\<lparr>strict = False, c_value = Num 60, c_target = Entity ''iron rods''\<rparr>,
        \<lparr>strict = False, c_value = Num 30, c_target = Entity ''iron rod''\<rparr>,
        \<lparr>strict = False, c_value = AnyValue, c_target = Entity ''iron ingot''\<rparr>]"
  let ?ins = "[\<lparr>strict = False, c_value = Num 5, c_target = Entity ''iron ore''\<rparr>,
        \<lparr>strict = False, c_value = Num 99, c_target = Entity ''iron ore''\<rparr>,
        \<lparr>strict = False, c_value = Num 7, c_target = Entity ''iron ingot''\<rparr>]"
  let ?q = "(OptimizationQuery ?raw True)
             \<lparr>eq_constraints := [(''item:iron-rod'', 30), (''recipe:iron-rod'', 0)],
              ge_constraints := [(''item:iron-ingot'', - 7), (''item:iron-ore'', - 99),
                                 (''recipe:iron-rod'', 0)],
              strict_recipes := True\<rparr>"
  have c: "parse_optimization_query fragment_library demo_db ?raw True ?outs ?ins
             [Entity ''iron rod''] [ExcludeEntity ''iron rod''] = Inr ?q"
    by code_simp
  have e: "eq_writes fragment_library demo_db ?outs [ExcludeEntity ''iron rod'']
     = [(''item:iron-rod'', 60), (''item:iron-rod'', 30), (''recipe:iron-rod'', 0)]"
    by code_simp
  have g: "ge_writes fragment_library demo_db ?outs ?ins [Entity ''iron rod'']
     = [(''item:iron-ingot'', 0), (''item:iron-ore'', - 5), (''item:iron-ore'', - 99),
        (''item:iron-ingot'', - 7), (''recipe:iron-rod'', 0)]"
    by code_simp
  have l1: "last_write [(''item:iron-rod'', 60), (''item:iron-rod'', 30), (''recipe:iron-rod'', 0)]
        ''item:iron-rod'' = Some 30"
    by code_simp
  have l2: "last_write [(''item:iron-ingot'', 0), (''item:iron-ore'', - 5), (''item:iron-ore'', - 99),
                  (''item:iron-ingot'', - 7), (''recipe:iron-rod'', 0)] ''item:iron-ore''
        = Some (- 99)"
    by code_simp
  have l3: "last_write [(''item:iron-ingot'', 0), (''item:iron-ore'', - 5), (''item:iron-ore'', - 99),
                  (''item:iron-ingot'', - 7), (''recipe:iron-rod'', 0)] ''item:iron-ingot''
        = Some (- 7)"
    by code_simp
  from last_write_wins_per_map [of fragment_library demo_db ?raw True ?outs ?ins
      "[Entity ''iron rod'']" "[ExcludeEntity ''iron rod'']" ?q] c
  have "map_of (eq_constraints ?q)
          = last_write (eq_writes fragment_library demo_db ?outs [ExcludeEntity ''iron rod''])"
    and "map_of (ge_constraints ?q)
          = last_write (ge_writes fragment_library demo_db ?outs ?ins [Entity ''iron rod''])"
    by blast+
  then have "map_of [(''item:iron-rod'', 30), (''recipe:iron-rod'', 0 :: int)]
       = last_write [(''item:iron-rod'', 60), (''item:iron-rod'', 30), (''recipe:iron-rod'', 0)]"
    and "map_of [(''item:iron-ingot'', - 7), (''item:iron-ore'', - 99), (''recipe:iron-rod'', 0 :: int)]
       = last_write [(''item:iron-ingot'', 0), (''item:iron-ore'', - 5), (''item:iron-ore'', - 99),
                     (''item:iron-ingot'', - 7), (''recipe:iron-rod'', 0)]"
    unfolding e g by simp_all
  with c e g l1 l2 l3 show ?thesis by blast
qed

text \<open>
  C4 as stated fails: a write to one map leaves the other maps as they are.  In
  \<^verbatim>\<open>produce 60 iron rods using iron rod without iron rod\<close> the var \<^verbatim>\<open>recipe:iron-rod\<close> is a
  key of \<open>ge_constraints\<close> and of \<open>eq_constraints\<close>.
\<close>

theorem constraint_maps_overlap:
  "map_sum id (\<lambda>q. (eq_constraints q, ge_constraints q, le_constraints q))
     (parse_optimization_query fragment_library demo_db
        ''produce 60 iron rods using iron rod without iron rod'' True
        [\<lparr>strict = False, c_value = Num 60, c_target = Entity ''iron rods''\<rparr>] []
        [Entity ''iron rod''] [ExcludeEntity ''iron rod''])
     = Inr ([(''item:iron-rod'', 60), (''recipe:iron-rod'', 0)], [(''recipe:iron-rod'', 0)], [])"
  by code_simp



section \<open>The edges of the flow graph\<close>









section \<open>Case and separators in entity resolution\<close>













end
